theory Spec2Isabelle
  imports Complex_Main "HOL-Library.List_Lexorder" "HOL-Library.Char_ord"
    "HOL-Library.Option_ord" "HOL-Library.Product_Lexorder" "HOL-Library.Multiset"
begin

section \<open>The match record handed from the Replay Client to the Match Store\<close>

text \<open>
  The dictionary built by \<open>get_player_stats_from_replay\<close> (data_collection.py, lines
  115-148) and read by \<open>add_match_history\<close> with \<open>match.get(key)\<close> (database.py, lines
  129-149). The four metadata keys come from \<open>replay_data.get(...)\<close> without a default,
  so they may be \<open>None\<close>; every statistic is written with a default of 0 and \<open>won\<close> is
  the result of a comparison, so those keys always hold a value. Field \<open>match_k\<close> is
  the key \<open>k\<close> of the dictionary. Integer columns are \<open>int\<close>; float columns are
  idealised to \<open>real\<close>.
\<close>

record match_dict =
  match_replay_id :: "string option"
  match_date :: "string option"
  match_duration :: "int option"
  match_playlist :: "string option"
  match_player_name :: "string option"
  match_team :: string
  match_won :: bool
  match_goals :: int
  match_assists :: int
  match_saves :: int
  match_shots :: int
  match_score :: int
  match_shooting_percentage :: real
  match_boost_collected :: real
  match_boost_stolen :: int
  match_boost_used :: int
  match_avg_speed :: real
  match_time_supersonic :: real
  match_time_defensive_third :: real
  match_time_neutral_third :: real
  match_time_offensive_third :: real

section \<open>The Match Store (database.py)\<close>

type_synonym timestamp = int

text \<open>
  Table \<open>players\<close> (database.py, lines 36-43). The primary key is named
  \<open>pl_player_id\<close> here, to keep it apart from the foreign key column of
  \<open>match_history\<close>.
\<close>

record player_row =
  pl_player_id :: int
  player_name :: string
  last_updated :: timestamp
  total_games :: int

text \<open>
  Table \<open>match_history\<close> (database.py, lines 46-72), which is also the row type of the
  DataFrame that \<open>get_player_stats\<close> returns. SQLite has no boolean storage class:
  the Python \<open>bool\<close> bound to column \<open>won\<close> is stored as the integer 1 or 0 and is read
  back as an integer.
\<close>

record match_row =
  match_id :: int
  player_id :: int
  replay_id :: "string option"
  date :: "string option"
  duration :: "int option"
  playlist :: "string option"
  team :: string
  won :: int
  goals :: int
  assists :: int
  saves :: int
  shots :: int
  score :: int
  shooting_percentage :: real
  boost_collected :: real
  boost_stolen :: int
  boost_used :: int
  avg_speed :: real
  time_supersonic :: real
  time_defensive_third :: real
  time_neutral_third :: real
  time_offensive_third :: real

text \<open>
  The database file: the two tables, and for each the counter that SQLite keeps in
  \<open>sqlite_sequence\<close> for an \<open>AUTOINCREMENT\<close> key (0 while the table has no entry
  there).
\<close>

record db =
  players :: "player_row list"
  match_history :: "match_row list"
  players_seq :: int
  match_history_seq :: int

definition empty_db :: db where
  "empty_db = \<lparr>players = [], match_history = [], players_seq = 0, match_history_seq = 0\<rparr>"

datatype error = TypeError | ZeroDivisionError | OverflowError

text \<open>
  \<open>INTEGER PRIMARY KEY AUTOINCREMENT\<close>: an \<open>INSERT\<close> takes a rowid that is one more
  than the largest rowid the table has ever been given, and records it in
  \<open>sqlite_sequence\<close>. The rowid is taken before the constraints are checked, so an
  insert that \<open>OR IGNORE\<close> then skips uses up its rowid all the same.
\<close>

definition next_rowid :: "int \<Rightarrow> int list \<Rightarrow> int" where
  "next_rowid seq ids = max seq (fold max ids 0) + 1"

text \<open>
  \<open>add_player\<close> (database.py, lines 78-100): \<open>INSERT OR IGNORE\<close> on the
  \<open>UNIQUE NOT NULL\<close> column \<open>player_name\<close>, then \<open>SELECT player_id ... WHERE
  player_name = ?\<close> and \<open>fetchone()[0]\<close>, which raises TypeError when no row comes back.
  A new row gets \<open>total_games\<close> from its \<open>DEFAULT 0\<close>.
\<close>

definition insert_or_ignore_player :: "string \<Rightarrow> timestamp \<Rightarrow> db \<Rightarrow> db" where
  "insert_or_ignore_player name now d =
     (let new_id = next_rowid (players_seq d) (map pl_player_id (players d)) in
      if list_ex (\<lambda>p. player_name p = name) (players d) then d\<lparr>players_seq := new_id\<rparr>
      else d\<lparr>players := players d @
               [\<lparr>pl_player_id = new_id, player_name = name, last_updated = now,
                 total_games = 0\<rparr>],
             players_seq := new_id\<rparr>)"

definition add_player :: "string \<Rightarrow> timestamp \<Rightarrow> db \<Rightarrow> error + (int \<times> db)" where
  "add_player name now d =
     (let d' = insert_or_ignore_player name now d
      in case find (\<lambda>p. player_name p = name) (players d') of
           None \<Rightarrow> Inl TypeError
         | Some p \<Rightarrow> Inr (pl_player_id p, d'))"

text \<open>
  The row that one \<open>INSERT\<close> of \<open>add_match_history\<close> binds (database.py, lines
  128-150): the player's id and the twenty values read with \<open>match.get\<close>; the key
  \<open>player_name\<close> of the dictionary is not stored.
\<close>

definition row_of_match :: "int \<Rightarrow> int \<Rightarrow> match_dict \<Rightarrow> match_row" where
  "row_of_match mid pid m =
     \<lparr>match_id = mid, player_id = pid,
      replay_id = match_replay_id m, date = match_date m,
      duration = match_duration m, playlist = match_playlist m,
      team = match_team m, won = (if match_won m then 1 else 0),
      goals = match_goals m, assists = match_assists m, saves = match_saves m,
      shots = match_shots m, score = match_score m,
      shooting_percentage = match_shooting_percentage m,
      boost_collected = match_boost_collected m,
      boost_stolen = match_boost_stolen m, boost_used = match_boost_used m,
      avg_speed = match_avg_speed m, time_supersonic = match_time_supersonic m,
      time_defensive_third = match_time_defensive_third m,
      time_neutral_third = match_time_neutral_third m,
      time_offensive_third = match_time_offensive_third m\<rparr>"

text \<open>
  The only constraint of \<open>match_history\<close> that an insert can violate is
  \<open>replay_id TEXT UNIQUE\<close> (line 50): it spans the whole table, it does not mention
  \<open>player_id\<close>, and, as every SQL \<open>UNIQUE\<close> does, it treats NULL as distinct from every
  value, NULL included.
\<close>

definition replay_id_conflict :: "string option \<Rightarrow> db \<Rightarrow> bool" where
  "replay_id_conflict rid d =
     (case rid of
        None \<Rightarrow> False
      | Some r \<Rightarrow> list_ex (\<lambda>row. replay_id row = Some r) (match_history d))"

text \<open>
  \<open>INSERT OR IGNORE INTO match_history\<close>, once its parameters are bound: a row that
  violates the constraint is skipped and the statement completes normally; nothing is
  raised.
\<close>

definition execute_insert_or_ignore :: "int \<Rightarrow> match_dict \<Rightarrow> db \<Rightarrow> db" where
  "execute_insert_or_ignore pid m d =
     (let new_id = next_rowid (match_history_seq d) (map match_id (match_history d)) in
      if replay_id_conflict (match_replay_id m) d then d\<lparr>match_history_seq := new_id\<rparr>
      else d\<lparr>match_history := match_history d @ [row_of_match new_id pid m],
             match_history_seq := new_id\<rparr>)"

text \<open>
  Binding the parameters: \<open>sqlite3\<close> stores a Python \<open>int\<close> as a 64-bit signed
  integer and raises OverflowError, before the statement runs, for one that does not
  fit. The integers of a record are its duration and the statistics of the integer
  columns.
\<close>

definition int64_ok :: "int \<Rightarrow> bool" where
  "int64_ok x = (- 9223372036854775808 \<le> x \<and> x < 9223372036854775808)"

definition bindable :: "match_dict \<Rightarrow> bool" where
  "bindable m =
     ((case match_duration m of None \<Rightarrow> True | Some x \<Rightarrow> int64_ok x) \<and>
      int64_ok (match_goals m) \<and> int64_ok (match_assists m) \<and>
      int64_ok (match_saves m) \<and> int64_ok (match_shots m) \<and>
      int64_ok (match_score m) \<and> int64_ok (match_boost_stolen m) \<and>
      int64_ok (match_boost_used m))"

definition insert_or_ignore_match :: "int \<Rightarrow> match_dict \<Rightarrow> db \<Rightarrow> error + db" where
  "insert_or_ignore_match pid m d =
     (if bindable m then Inr (execute_insert_or_ignore pid m d) else Inl OverflowError)"

text \<open>
  The loop of \<open>add_match_history\<close> (database.py, lines 117-154). \<open>games_added += 1\<close>
  follows \<open>cursor.execute\<close> inside the \<open>try\<close>; the \<open>except sqlite3.IntegrityError\<close>
  branch is the only way around it, and \<open>INSERT OR IGNORE\<close> does not take it. An
  OverflowError is not caught and ends the loop.
\<close>

fun insert_matches :: "int \<Rightarrow> match_dict list \<Rightarrow> db \<times> int \<Rightarrow> error + db \<times> int" where
  "insert_matches pid [] (d, games_added) = Inr (d, games_added)"
| "insert_matches pid (m # ms) (d, games_added) =
     (case insert_or_ignore_match pid m d of
        Inl e \<Rightarrow> Inl e
      | Inr d' \<Rightarrow> insert_matches pid ms (d', games_added + 1))"

text \<open>
  \<open>UPDATE players SET last_updated = ?, total_games = (SELECT COUNT(*) FROM
  match_history WHERE player_id = ?) WHERE player_id = ?\<close> (lines 157-162).
\<close>

definition count_matches :: "int \<Rightarrow> db \<Rightarrow> int" where
  "count_matches pid d = int (length (filter (\<lambda>row. player_id row = pid) (match_history d)))"

definition update_player :: "int \<Rightarrow> timestamp \<Rightarrow> db \<Rightarrow> db" where
  "update_player pid now d =
     d\<lparr>players := map (\<lambda>p. if pl_player_id p = pid
                             then p\<lparr>last_updated := now, total_games := count_matches pid d\<rparr>
                             else p) (players d)\<rparr>"

text \<open>
  \<open>add_match_history\<close> (database.py, lines 102-167). The two calls of
  \<open>datetime.now()\<close> are the parameters \<open>now1\<close> (in \<open>add_player\<close>) and \<open>now2\<close> (in the
  \<open>UPDATE\<close>). The function prints \<open>games_added\<close>. The result is the database file as
  it is after the call, and either the exception that left the function or
  \<open>games_added\<close>. \<open>add_player\<close> commits on a connection of its own before the loop
  starts; the inserts and the \<open>UPDATE\<close> are committed together at the end, so an
  exception in the loop leaves the file as \<open>add_player\<close> left it.
\<close>

definition add_match_history ::
  "string \<Rightarrow> match_dict list \<Rightarrow> timestamp \<Rightarrow> timestamp \<Rightarrow> db \<Rightarrow> db \<times> (error + int)" where
  "add_match_history name match_data now1 now2 d =
     (case add_player name now1 d of
        Inl e \<Rightarrow> (d, Inl e)
      | Inr (pid, d1) \<Rightarrow>
          (case insert_matches pid match_data (d1, 0) of
             Inl e \<Rightarrow> (d1, Inl e)
           | Inr (d2, games_added) \<Rightarrow> (update_player pid now2 d2, Inr games_added)))"

text \<open>
  \<open>get_player_stats\<close> (database.py, lines 169-192): the join of \<open>match_history\<close> with
  \<open>players\<close> on the player id, restricted to the name, \<open>ORDER BY m.date DESC\<close>. SQLite
  orders NULL before every text, so NULL dates come last in descending order; rows of
  equal date come in the order of the table, which SQL does not promise and SQLite
  gives.
\<close>

definition get_player_stats :: "string \<Rightarrow> db \<Rightarrow> match_row list" where
  "get_player_stats name d =
     rev (sort_key date (rev
       (concat (map (\<lambda>m. map (\<lambda>p. m)
                      (filter (\<lambda>p. player_id m = pl_player_id p \<and> player_name p = name)
                         (players d)))
                 (match_history d)))))"

text \<open>\<open>player_exists\<close> (database.py, lines 194-203).\<close>

definition player_exists :: "string \<Rightarrow> db \<Rightarrow> bool" where
  "player_exists name d = (0 < length (filter (\<lambda>p. player_name p = name) (players d)))"

text \<open>The \<open>total_games\<close> stored for a player name (one value per row with that name).\<close>

definition total_games_of :: "string \<Rightarrow> db \<Rightarrow> int list" where
  "total_games_of name d = map total_games (filter (\<lambda>p. player_name p = name) (players d))"

text \<open>The replay ids that are stored, NULL left out: all of them, and those of one player.\<close>

definition stored_replay_ids :: "db \<Rightarrow> string list" where
  "stored_replay_ids d = List.map_filter replay_id (match_history d)"

definition replay_ids_of :: "int \<Rightarrow> db \<Rightarrow> string list" where
  "replay_ids_of pid d =
     List.map_filter replay_id (filter (\<lambda>row. player_id row = pid) (match_history d))"

text \<open>The database after one call, and the count the call reports.\<close>

definition store_after :: "string \<Rightarrow> match_dict list \<Rightarrow> timestamp \<Rightarrow> db \<Rightarrow> db" where
  "store_after name match_data now d = fst (add_match_history name match_data now now d)"

definition reported :: "string \<Rightarrow> match_dict list \<Rightarrow> timestamp \<Rightarrow> db \<Rightarrow> int option" where
  "reported name match_data now d =
     (case snd (add_match_history name match_data now now d) of
        Inl e \<Rightarrow> None
      | Inr games_added \<Rightarrow> Some games_added)"

text \<open>
  The test record of database.py (lines 216-237), the same record without an id, and the
  same record with a goal count of \<open>2^63\<close>.
\<close>

definition test_match :: match_dict where
  "test_match =
     \<lparr>match_replay_id = Some ''test123'', match_date = Some ''2026-02-10'',
      match_duration = Some 300, match_playlist = Some ''Ranked Doubles 2v2'',
      match_player_name = None, match_team = ''blue'', match_won = True,
      match_goals = 2, match_assists = 1, match_saves = 3, match_shots = 5,
      match_score = 450, match_shooting_percentage = 40,
      match_boost_collected = 250, match_boost_stolen = 10, match_boost_used = 200,
      match_avg_speed = 1200, match_time_supersonic = 45,
      match_time_defensive_third = 30, match_time_neutral_third = 40,
      match_time_offensive_third = 30\<rparr>"

definition test_match_no_id :: match_dict where
  "test_match_no_id = test_match\<lparr>match_replay_id := None\<rparr>"

definition test_match_too_large :: match_dict where
  "test_match_too_large = test_match\<lparr>match_goals := 9223372036854775808\<rparr>"

section \<open>The Analytics Engine (analytics.py)\<close>

text \<open>
  \<open>PlayerAnalytics\<close> holds the DataFrame of \<open>get_player_stats\<close>: a list of
  \<open>match_row\<close>, most recent first. Its statistic columns are numeric (\<open>int64\<close> and
  \<open>float64\<close>), and so is \<open>won\<close>, which SQLite hands back as 0 or 1. Float arithmetic is
  idealised to exact arithmetic on \<open>real\<close>, and NaN is \<open>None\<close>.
\<close>

type_synonym float64 = "real option"

definition fsub :: "float64 \<Rightarrow> float64 \<Rightarrow> float64" where
  "fsub a b = (case a of None \<Rightarrow> None | Some x \<Rightarrow> (case b of None \<Rightarrow> None | Some y \<Rightarrow> Some (x - y)))"

definition fgt :: "float64 \<Rightarrow> real \<Rightarrow> bool" where
  "fgt a t = (case a of None \<Rightarrow> False | Some x \<Rightarrow> x > t)"

definition flt :: "float64 \<Rightarrow> real \<Rightarrow> bool" where
  "flt a t = (case a of None \<Rightarrow> False | Some x \<Rightarrow> x < t)"

text \<open>\<open>Series.mean()\<close>: NaN on a Series without rows.\<close>

definition series_mean :: "real list \<Rightarrow> float64" where
  "series_mean xs = (if xs = [] then None else Some (sum_list xs / real (length xs)))"

definition int_mean :: "int list \<Rightarrow> float64" where
  "int_mean xs = series_mean (map real_of_int xs)"

text \<open>
  \<open>df["won"].sum() / len(df) * 100\<close> on a numeric column: the sum over no rows is 0,
  and numpy's 0 / 0 is NaN.
\<close>

definition win_rate_pct :: "match_row list \<Rightarrow> float64" where
  "win_rate_pct df =
     (if df = [] then None
      else Some (real_of_int (sum_list (map won df)) / real (length df) * 100))"

text \<open>
  \<open>~\<close> on an \<open>int64\<close> Series is numpy's \<open>invert\<close>, the bitwise complement of each
  element: \<open>~1 = -2\<close> and \<open>~0 = -1\<close>.
\<close>

definition invert :: "int \<Rightarrow> int" where
  "invert x = - x - 1"

record summary =
  s_total_games :: int
  s_wins :: int
  s_losses :: int
  s_win_rate :: float64
  s_avg_goals :: float64
  s_avg_assists :: float64
  s_avg_saves :: float64
  s_avg_shots :: float64
  s_avg_score :: float64
  s_avg_shooting_pct :: float64
  s_best_goals :: int
  s_best_assists :: int
  s_best_saves :: int
  s_best_score :: int

text \<open>
  \<open>get_summary_stats\<close> (analytics.py, lines 21-52). \<open>None\<close> is the empty dictionary
  \<open>{}\<close>; field \<open>s_k\<close> is the key \<open>k\<close>.
\<close>

fun get_summary_stats :: "match_row list \<Rightarrow> summary option" where
  "get_summary_stats [] = None"
| "get_summary_stats (r # rs) =
     (let df = r # rs in
      Some \<lparr>s_total_games = int (length df),
            s_wins = sum_list (map won df),
            s_losses = sum_list (map (\<lambda>x. invert (won x)) df),
            s_win_rate = win_rate_pct df,
            s_avg_goals = int_mean (map goals df),
            s_avg_assists = int_mean (map assists df),
            s_avg_saves = int_mean (map saves df),
            s_avg_shots = int_mean (map shots df),
            s_avg_score = int_mean (map score df),
            s_avg_shooting_pct = series_mean (map shooting_percentage df),
            s_best_goals = fold max (map goals rs) (goals r),
            s_best_assists = fold max (map assists rs) (assists r),
            s_best_saves = fold max (map saves rs) (saves r),
            s_best_score = fold max (map score rs) (score r)\<rparr>)"

record playlist_stats =
  bp_games :: int
  bp_win_rate :: float64
  bp_avg_goals :: float64
  bp_avg_assists :: float64
  bp_avg_saves :: float64
  bp_avg_score :: float64

text \<open>\<open>Series.unique()\<close>: the distinct values in order of first appearance.\<close>

definition unique :: "'a list \<Rightarrow> 'a list" where
  "unique xs = rev (remdups (rev xs))"

text \<open>
  \<open>get_stats_by_playlist\<close> (analytics.py, lines 54-81): the dictionary as the list of
  its items in insertion order; \<open>[]\<close> is \<open>{}\<close>.
\<close>

definition get_stats_by_playlist :: "match_row list \<Rightarrow> (string \<times> playlist_stats) list" where
  "get_stats_by_playlist df =
     (if df = [] then []
      else List.map_filter
             (\<lambda>v. case v of
                    None \<Rightarrow> None
                  | Some pl \<Rightarrow>
                      (let playlist_df = filter (\<lambda>r. playlist r = Some pl) df in
                       Some (pl, \<lparr>bp_games = int (length playlist_df),
                                  bp_win_rate = win_rate_pct playlist_df,
                                  bp_avg_goals = int_mean (map goals playlist_df),
                                  bp_avg_assists = int_mean (map assists playlist_df),
                                  bp_avg_saves = int_mean (map saves playlist_df),
                                  bp_avg_score = int_mean (map score playlist_df)\<rparr>)))
             (unique (map playlist df)))"

text \<open>
  \<open>sort_values("date")\<close>, ascending: rows without a date go last
  (\<open>na_position='last'\<close>). The sort is stable here; pandas' default sort leaves the order
  among equal dates open.
\<close>

definition na_last_key :: "match_row \<Rightarrow> bool \<times> string" where
  "na_last_key r = (case date r of None \<Rightarrow> (True, []) | Some s \<Rightarrow> (False, s))"

definition sort_values_date :: "match_row list \<Rightarrow> match_row list" where
  "sort_values_date df = sort_key na_last_key df"

record trend_row =
  trend_match :: match_row
  rolling_goals :: float64
  rolling_assists :: float64
  rolling_saves :: float64
  rolling_score :: float64

text \<open>
  \<open>rolling(window=5, min_periods=1).mean()\<close>: at position \<open>i\<close> the mean of the values
  at positions \<open>i - 4\<close> to \<open>i\<close> that exist.
\<close>

definition rolling_mean :: "int list \<Rightarrow> nat \<Rightarrow> float64" where
  "rolling_mean xs i = int_mean (drop (Suc i - 5) (take (Suc i) xs))"

text \<open>
  \<open>get_performance_trend\<close> (analytics.py, lines 83-102); \<open>[]\<close> is the empty
  DataFrame.
\<close>

definition get_performance_trend :: "match_row list \<Rightarrow> trend_row list" where
  "get_performance_trend df =
     (if df = [] then []
      else (let df_sorted = sort_values_date df in
            map (\<lambda>i. \<lparr>trend_match = df_sorted ! i,
                       rolling_goals = rolling_mean (map goals df_sorted) i,
                       rolling_assists = rolling_mean (map assists df_sorted) i,
                       rolling_saves = rolling_mean (map saves df_sorted) i,
                       rolling_score = rolling_mean (map score df_sorted) i\<rparr>)
              [0 ..< length df_sorted]))"

text \<open>
  \<open>DataFrame.head(n)\<close> is \<open>df[:n]\<close> and \<open>DataFrame.tail(n)\<close> is \<open>df[-n:]\<close>, or no
  row when \<open>n = 0\<close>: a negative \<open>n\<close> leaves out \<open>|n|\<close> rows at the other end.
\<close>

definition head_df :: "int \<Rightarrow> 'a list \<Rightarrow> 'a list" where
  "head_df n df = (if 0 \<le> n then take (nat n) df else take (length df - nat (- n)) df)"

definition tail_df :: "int \<Rightarrow> 'a list \<Rightarrow> 'a list" where
  "tail_df n df =
     (if n = 0 then []
      else if 0 < n then drop (length df - nat n) df
      else drop (nat (- n)) df)"

record recent_form =
  rf_games :: int
  rf_wins :: int
  rf_win_rate :: float64
  rf_avg_goals :: float64
  rf_avg_assists :: float64
  rf_avg_saves :: float64
  rf_avg_score :: float64

text \<open>\<open>get_recent_form\<close> (analytics.py, lines 104-128).\<close>

definition get_recent_form :: "match_row list \<Rightarrow> int \<Rightarrow> recent_form option" where
  "get_recent_form df num_games =
     (if df = [] then None
      else (let recent_df = head_df num_games df in
            Some \<lparr>rf_games = int (length recent_df),
                  rf_wins = sum_list (map won recent_df),
                  rf_win_rate = win_rate_pct recent_df,
                  rf_avg_goals = int_mean (map goals recent_df),
                  rf_avg_assists = int_mean (map assists recent_df),
                  rf_avg_saves = int_mean (map saves recent_df),
                  rf_avg_score = int_mean (map score recent_df)\<rparr>))"

record calc =
  cs_win_rate :: float64
  cs_avg_goals :: float64
  cs_avg_assists :: float64
  cs_avg_saves :: float64
  cs_avg_score :: float64

record improvements =
  win_rate_change :: float64
  goals_change :: float64
  assists_change :: float64
  saves_change :: float64
  score_change :: float64

record comparison =
  early :: calc
  recent :: calc
  improvement :: improvements

definition calc_stats :: "match_row list \<Rightarrow> calc" where
  "calc_stats df =
     \<lparr>cs_win_rate = win_rate_pct df,
      cs_avg_goals = int_mean (map goals df),
      cs_avg_assists = int_mean (map assists df),
      cs_avg_saves = int_mean (map saves df),
      cs_avg_score = int_mean (map score df)\<rparr>"

text \<open>
  \<open>compare_performance\<close> (analytics.py, lines 130-175). The guard is the only early
  return. A DataFrame without rows has columns of dtype \<open>object\<close>, whose sum is the
  Python integer 0, so when the guard lets the empty DataFrame through,
  \<open>df["won"].sum() / len(df)\<close> in \<open>calc_stats\<close> is Python's \<open>0 / 0\<close> and raises.
\<close>

definition compare_performance ::
  "match_row list \<Rightarrow> int \<Rightarrow> int \<Rightarrow> error + comparison option" where
  "compare_performance df first_n last_n =
     (if int (length df) < first_n + last_n then Inr None
      else if df = [] then Inl ZeroDivisionError
      else
        (let df_sorted = sort_values_date df;
             early_games = head_df first_n df_sorted;
             recent_games = tail_df last_n df_sorted;
             early_stats = calc_stats early_games;
             recent_stats = calc_stats recent_games
         in Inr (Some
              \<lparr>early = early_stats, recent = recent_stats,
               improvement =
                 \<lparr>win_rate_change = fsub (cs_win_rate recent_stats) (cs_win_rate early_stats),
                  goals_change = fsub (cs_avg_goals recent_stats) (cs_avg_goals early_stats),
                  assists_change = fsub (cs_avg_assists recent_stats) (cs_avg_assists early_stats),
                  saves_change = fsub (cs_avg_saves recent_stats) (cs_avg_saves early_stats),
                  score_change = fsub (cs_avg_score recent_stats) (cs_avg_score early_stats)\<rparr>\<rparr>)))"

text \<open>
  The windows in the words of the specification: the \<open>n\<close> earliest and the \<open>n\<close> latest
  rows by date.
\<close>

definition earliest_rows :: "int \<Rightarrow> match_row list \<Rightarrow> match_row list" where
  "earliest_rows n df = take (nat n) (sort_values_date df)"

definition latest_rows :: "int \<Rightarrow> match_row list \<Rightarrow> match_row list" where
  "latest_rows n df = rev (take (nat n) (rev (sort_values_date df)))"

record percentiles =
  pct_goals :: float64
  pct_assists :: float64
  pct_saves :: float64
  pct_shooting_pct :: float64

record strengths_weaknesses =
  strengths :: "string list"
  weaknesses :: "string list"
  metrics :: percentiles

text \<open>
  One \<open>if ... > hi: strengths.append(label) elif ... < lo: weaknesses.append(label)\<close>
  of \<open>get_strengths_and_weaknesses\<close>, on the pair of lists built so far.
\<close>

definition classify ::
  "float64 \<Rightarrow> real \<Rightarrow> real \<Rightarrow> string \<Rightarrow> string list \<times> string list \<Rightarrow> string list \<times> string list" where
  "classify v hi lo label sw =
     (if fgt v hi then (fst sw @ [label], snd sw)
      else if flt v lo then (fst sw, snd sw @ [label])
      else sw)"

text \<open>\<open>get_strengths_and_weaknesses\<close> (analytics.py, lines 177-224).\<close>

definition get_strengths_and_weaknesses :: "match_row list \<Rightarrow> strengths_weaknesses option" where
  "get_strengths_and_weaknesses df =
     (if df = [] then None
      else
        (let pcts = \<lparr>pct_goals = int_mean (map goals df),
                     pct_assists = int_mean (map assists df),
                     pct_saves = int_mean (map saves df),
                     pct_shooting_pct = series_mean (map shooting_percentage df)\<rparr>;
             sw0 = ([], []);
             sw1 = classify (pct_goals pcts) (3 / 2) (4 / 5) ''Goal scoring'' sw0;
             sw2 = classify (pct_assists pcts) (6 / 5) (3 / 5) ''Playmaking'' sw1;
             sw3 = classify (pct_saves pcts) (3 / 2) (4 / 5) ''Defense'' sw2;
             sw4 = classify (pct_shooting_pct pcts) 40 25 ''Shot accuracy'' sw3
         in Some \<lparr>strengths = (if fst sw4 \<noteq> [] then fst sw4
                                else [''Consistent all-around player'']),
                  weaknesses = (if snd sw4 \<noteq> [] then snd sw4
                                 else [''Well-rounded performance'']),
                  metrics = pcts\<rparr>))"

text \<open>
  What one metric adds to the list of strengths and to the list of weaknesses: the two
  branches of \<open>classify\<close>, each on its own.
\<close>

definition strong :: "float64 \<Rightarrow> real \<Rightarrow> string \<Rightarrow> string list" where
  "strong v hi label = (if fgt v hi then [label] else [])"

definition weak :: "float64 \<Rightarrow> real \<Rightarrow> real \<Rightarrow> string \<Rightarrow> string list" where
  "weak v hi lo label = (if \<not> fgt v hi \<and> flt v lo then [label] else [])"

text \<open>
  Rows for the examples: the stored test record with another date, outcome and goal
  count; two games on successive days; five games whose means are the lower thresholds
  (goals 4/5, assists 3/5, saves 4/5, shooting percentage 25); and ten games whose means
  are the upper thresholds (goals 3/2, assists 6/5, saves 3/2, shooting percentage 40).
\<close>

definition test_row :: "string \<Rightarrow> int \<Rightarrow> int \<Rightarrow> match_row" where
  "test_row d w g = (row_of_match 1 1 test_match)\<lparr>date := Some d, won := w, goals := g\<rparr>"

definition two_games :: "match_row list" where
  "two_games = [test_row ''2026-01-02'' 1 4, test_row ''2026-01-01'' 0 0]"

definition threshold_row :: "int \<Rightarrow> int \<Rightarrow> int \<Rightarrow> real \<Rightarrow> match_row" where
  "threshold_row g a s p =
     (row_of_match 1 1 test_match)\<lparr>goals := g, assists := a, saves := s, shooting_percentage := p\<rparr>"

definition threshold_df :: "match_row list" where
  "threshold_df =
     [threshold_row 1 1 1 25, threshold_row 1 1 1 25, threshold_row 1 1 1 25,
      threshold_row 1 0 1 25, threshold_row 0 0 0 25]"

definition upper_threshold_df :: "match_row list" where
  "upper_threshold_df =
     [threshold_row 2 2 2 40, threshold_row 2 2 2 40, threshold_row 2 1 2 40,
      threshold_row 2 1 2 40, threshold_row 2 1 2 40, threshold_row 1 1 1 40,
      threshold_row 1 1 1 40, threshold_row 1 1 1 40, threshold_row 1 1 1 40,
      threshold_row 1 1 1 40]"

section \<open>The Replay Client (data_collection.py)\<close>

text \<open>
  The replay payload is a JSON object read with \<open>dict.get\<close>. Each record below is one
  level of that object; a field is \<open>None\<close> when the key is absent, and the source's
  default then applies.
\<close>

record core_json =
  core_goals :: "int option"
  core_assists :: "int option"
  core_saves :: "int option"
  core_shots :: "int option"
  core_score :: "int option"
  core_shooting_percentage :: "real option"

record boost_json =
  boost_bcpm :: "real option"
  boost_stolen_json :: "int option"
  boost_used_while_supersonic :: "int option"

record movement_json =
  movement_avg_speed :: "real option"
  movement_time_supersonic_speed :: "real option"

record positioning_json =
  positioning_time_defensive_third :: "real option"
  positioning_time_neutral_third :: "real option"
  positioning_time_offensive_third :: "real option"

record stats_json =
  stats_core :: "core_json option"
  stats_boost :: "boost_json option"
  stats_movement :: "movement_json option"
  stats_positioning :: "positioning_json option"

record player_json =
  json_name :: "string option"
  json_stats :: "stats_json option"

record team_json =
  team_players :: "player_json list option"
  team_stats :: "stats_json option"

record replay_json =
  replay_blue :: "team_json option"
  replay_orange :: "team_json option"
  replay_json_id :: "string option"
  replay_date :: "string option"
  replay_duration :: "int option"
  replay_playlist_name :: "string option"

text \<open>
  \<open>str.lower()\<close> on the letters A to Z; every other character is left as it is, so the
  names are taken to be ASCII.
\<close>

definition lower_char :: "char \<Rightarrow> char" where
  "lower_char c =
     (case map_of (zip ''ABCDEFGHIJKLMNOPQRSTUVWXYZ'' ''abcdefghijklmnopqrstuvwxyz'') c of
        None \<Rightarrow> c
      | Some l \<Rightarrow> l)"

definition lower :: "string \<Rightarrow> string" where
  "lower s = map lower_char s"

text \<open>\<open>d.get(key, default)\<close> on an optional value.\<close>

definition get_or :: "'a option \<Rightarrow> 'a \<Rightarrow> 'a" where
  "get_or v dflt = (case v of None \<Rightarrow> dflt | Some x \<Rightarrow> x)"

text \<open>\<open>replay_data.get(team_color, {})\<close> for the two keys the loop uses.\<close>

definition get_team :: "replay_json \<Rightarrow> string \<Rightarrow> team_json option" where
  "get_team replay_data team_color =
     (if team_color = ''blue'' then replay_blue replay_data
      else if team_color = ''orange'' then replay_orange replay_data
      else None)"

text \<open>\<open>replay_data.get(team_color, {}).get("players", [])\<close>.\<close>

definition players_of :: "replay_json \<Rightarrow> string \<Rightarrow> player_json list" where
  "players_of replay_data team_color =
     (case get_team replay_data team_color of
        None \<Rightarrow> []
      | Some team_data \<Rightarrow> get_or (team_players team_data) [])"

text \<open>
  \<open>replay_data.get(team_color, {}).get("stats", {}).get("core", {}).get("goals", 0)\<close>
  (lines 107-108).
\<close>

definition team_goals :: "replay_json \<Rightarrow> string \<Rightarrow> int" where
  "team_goals replay_data team_color =
     (case get_team replay_data team_color of
        None \<Rightarrow> 0
      | Some team_data \<Rightarrow>
          (case team_stats team_data of
             None \<Rightarrow> 0
           | Some st \<Rightarrow>
               (case stats_core st of
                  None \<Rightarrow> 0
                | Some c \<Rightarrow> get_or (core_goals c) 0)))"

text \<open>
  The test of line 98, \<open>player.get("name", "").lower() == player_name.lower()\<close>;
  \<open>pname\<close> is the argument \<open>player_name\<close>.
\<close>

definition name_matches :: "string \<Rightarrow> player_json \<Rightarrow> bool" where
  "name_matches pname player = (lower (get_or (json_name player) []) = lower pname)"

text \<open>
  The body of the \<open>if\<close> (lines 99-148): the four statistic groups with \<open>{}\<close> for a
  missing one, the win flag (\<open>has_won\<close> is the local \<open>won\<close>) from the two teams' goals, and the
  returned dictionary.
\<close>

definition player_record :: "replay_json \<Rightarrow> string \<Rightarrow> player_json \<Rightarrow> match_dict" where
  "player_record replay_data team_color player =
     (let stats = get_or (json_stats player)
                    \<lparr>stats_core = None, stats_boost = None, stats_movement = None,
                     stats_positioning = None\<rparr>;
          core = get_or (stats_core stats)
                   \<lparr>core_goals = None, core_assists = None, core_saves = None,
                    core_shots = None, core_score = None, core_shooting_percentage = None\<rparr>;
          boost = get_or (stats_boost stats)
                    \<lparr>boost_bcpm = None, boost_stolen_json = None,
                     boost_used_while_supersonic = None\<rparr>;
          movement = get_or (stats_movement stats)
                       \<lparr>movement_avg_speed = None, movement_time_supersonic_speed = None\<rparr>;
          positioning = get_or (stats_positioning stats)
                          \<lparr>positioning_time_defensive_third = None,
                           positioning_time_neutral_third = None,
                           positioning_time_offensive_third = None\<rparr>;
          blue_goals = team_goals replay_data ''blue'';
          orange_goals = team_goals replay_data ''orange'';
          has_won = (if team_color = ''blue'' then blue_goals > orange_goals
                     else orange_goals > blue_goals)
      in \<lparr>match_replay_id = replay_json_id replay_data,
          match_date = replay_date replay_data,
          match_duration = replay_duration replay_data,
          match_playlist = replay_playlist_name replay_data,
          match_player_name = json_name player,
          match_team = team_color,
          match_won = has_won,
          match_goals = get_or (core_goals core) 0,
          match_assists = get_or (core_assists core) 0,
          match_saves = get_or (core_saves core) 0,
          match_shots = get_or (core_shots core) 0,
          match_score = get_or (core_score core) 0,
          match_shooting_percentage = get_or (core_shooting_percentage core) 0,
          match_boost_collected = get_or (boost_bcpm boost) 0,
          match_boost_stolen = get_or (boost_stolen_json boost) 0,
          match_boost_used = get_or (boost_used_while_supersonic boost) 0,
          match_avg_speed = get_or (movement_avg_speed movement) 0,
          match_time_supersonic = get_or (movement_time_supersonic_speed movement) 0,
          match_time_defensive_third = get_or (positioning_time_defensive_third positioning) 0,
          match_time_neutral_third = get_or (positioning_time_neutral_third positioning) 0,
          match_time_offensive_third = get_or (positioning_time_offensive_third positioning) 0\<rparr>)"

text \<open>
  The two nested loops of \<open>get_player_stats_from_replay\<close> (lines 92-151): the inner
  loop returns at the first player of the roster whose name matches, the outer loop goes
  on to the next team when the roster has none, and \<open>None\<close> is returned after the last
  team.
\<close>

fun scan_teams :: "replay_json \<Rightarrow> string \<Rightarrow> string list \<Rightarrow> match_dict option" where
  "scan_teams replay_data pname [] = None"
| "scan_teams replay_data pname (team_color # rest) =
     (case find (name_matches pname) (players_of replay_data team_color) of
        Some player \<Rightarrow> Some (player_record replay_data team_color player)
      | None \<Rightarrow> scan_teams replay_data pname rest)"

definition get_player_stats_from_replay :: "replay_json \<Rightarrow> string \<Rightarrow> match_dict option" where
  "get_player_stats_from_replay replay_data pname =
     scan_teams replay_data pname [''blue'', ''orange'']"

text \<open>Payloads for the examples: a player with a name and a goal count, and a replay of
  two rosters with the teams' goals.\<close>

definition mk_player :: "string \<Rightarrow> int \<Rightarrow> player_json" where
  "mk_player n g =
     \<lparr>json_name = Some n,
      json_stats = Some \<lparr>stats_core = Some \<lparr>core_goals = Some g, core_assists = None,
                                             core_saves = None, core_shots = None,
                                             core_score = None,
                                             core_shooting_percentage = None\<rparr>,
                         stats_boost = None, stats_movement = None,
                         stats_positioning = None\<rparr>\<rparr>"

definition mk_team :: "player_json list \<Rightarrow> int \<Rightarrow> team_json" where
  "mk_team ps g =
     \<lparr>team_players = Some ps,
      team_stats = Some \<lparr>stats_core = Some \<lparr>core_goals = Some g, core_assists = None,
                                             core_saves = None, core_shots = None,
                                             core_score = None,
                                             core_shooting_percentage = None\<rparr>,
                         stats_boost = None, stats_movement = None,
                         stats_positioning = None\<rparr>\<rparr>"

definition mk_replay :: "player_json list \<Rightarrow> int \<Rightarrow> player_json list \<Rightarrow> int \<Rightarrow> replay_json" where
  "mk_replay bs bg os og =
     \<lparr>replay_blue = Some (mk_team bs bg), replay_orange = Some (mk_team os og),
      replay_json_id = Some ''r1'', replay_date = Some ''2026-02-10'',
      replay_duration = Some 300, replay_playlist_name = Some ''Ranked Doubles 2v2''\<rparr>"

section \<open>Properties of the Match Store\<close>

subsection \<open>Auxiliary facts\<close>

lemma add_player_Inr:
  "\<exists>p. find (\<lambda>p. player_name p = name) (players (insert_or_ignore_player name now d)) = Some p
       \<and> add_player name now d = Inr (pl_player_id p, insert_or_ignore_player name now d)"
proof -
  have "list_ex (\<lambda>p. player_name p = name) (players (insert_or_ignore_player name now d))"
    by (simp add: insert_or_ignore_player_def list_ex_iff Let_def)
  then obtain p where "find (\<lambda>p. player_name p = name) (players (insert_or_ignore_player name now d)) = Some p"
    by (cases "find (\<lambda>p. player_name p = name) (players (insert_or_ignore_player name now d))")
       (auto simp: find_None_iff list_ex_iff)
  then show ?thesis by (auto simp: add_player_def Let_def)
qed

lemma match_history_insert_or_ignore_player [simp]:
  "match_history (insert_or_ignore_player name now d) = match_history d"
  by (simp add: insert_or_ignore_player_def Let_def)

lemma match_history_update_player [simp]:
  "match_history (update_player pid now d) = match_history d"
  by (simp add: update_player_def)

lemma players_execute [simp]:
  "players (execute_insert_or_ignore pid m d) = players d"
  by (simp add: execute_insert_or_ignore_def Let_def)

lemma map_filter_append:
  "List.map_filter f (xs @ ys) = List.map_filter f xs @ List.map_filter f ys"
  by (simp add: List.map_filter_def)

lemma set_map_filter_replay_id:
  "r \<in> set (List.map_filter replay_id rows) \<longleftrightarrow> list_ex (\<lambda>row. replay_id row = Some r) rows"
  by (induction rows) (auto simp: List.map_filter_simps split: option.splits)

lemma replay_id_conflict_iff:
  "replay_id_conflict rid d \<longleftrightarrow> (\<exists>r. rid = Some r \<and> r \<in> set (stored_replay_ids d))"
  by (cases rid) (simp_all add: replay_id_conflict_def stored_replay_ids_def set_map_filter_replay_id)


lemma replay_id_row_of_match [simp]: "replay_id (row_of_match mid pid m) = match_replay_id m"
  by (simp add: row_of_match_def)

lemma player_id_row_of_match [simp]: "player_id (row_of_match mid pid m) = pid"
  by (simp add: row_of_match_def)

lemma stored_execute:
  "stored_replay_ids (execute_insert_or_ignore pid m d) =
     (case match_replay_id m of
        None \<Rightarrow> stored_replay_ids d
      | Some r \<Rightarrow> if r \<in> set (stored_replay_ids d) then stored_replay_ids d
                  else stored_replay_ids d @ [r])"
  by (cases "match_replay_id m")
     (auto simp: execute_insert_or_ignore_def Let_def replay_id_conflict_iff stored_replay_ids_def
        map_filter_append List.map_filter_simps)

lemma replay_ids_of_execute:
  "replay_ids_of q (execute_insert_or_ignore pid m d) =
     (case match_replay_id m of
        None \<Rightarrow> replay_ids_of q d
      | Some r \<Rightarrow> if r \<in> set (stored_replay_ids d) \<or> q \<noteq> pid then replay_ids_of q d
                  else replay_ids_of q d @ [r])"
  by (cases "match_replay_id m")
     (auto simp: execute_insert_or_ignore_def Let_def replay_id_conflict_iff replay_ids_of_def
        stored_replay_ids_def map_filter_append List.map_filter_simps)

lemma set_replay_ids_of_subset: "set (replay_ids_of q d) \<subseteq> set (stored_replay_ids d)"
  by (auto simp: replay_ids_of_def stored_replay_ids_def set_map_filter_replay_id list_ex_iff)

lemma distinct_stored_step:
  "distinct (stored_replay_ids d) \<Longrightarrow> distinct (stored_replay_ids (execute_insert_or_ignore pid m d))"
  by (simp add: stored_execute split: option.splits)

lemma distinct_of_step:
  "distinct (replay_ids_of q d) \<Longrightarrow> distinct (replay_ids_of q (execute_insert_or_ignore pid m d))"
  using set_replay_ids_of_subset [of q d]
  by (auto simp: replay_ids_of_execute split: option.splits)

lemma rows_with_step:
  "r \<in> set (stored_replay_ids d) \<Longrightarrow>
   filter (\<lambda>row. replay_id row = Some r) (match_history (execute_insert_or_ignore pid m d)) =
   filter (\<lambda>row. replay_id row = Some r) (match_history d)"
  by (auto simp: execute_insert_or_ignore_def Let_def replay_id_conflict_iff)

lemma stored_mono_step:
  "set (stored_replay_ids d) \<subseteq> set (stored_replay_ids (execute_insert_or_ignore pid m d))"
  by (auto simp: stored_execute split: option.splits)


text \<open>
  The loop returns exactly when every record of the batch can be bound, and then it has
  run the statement on each record in turn and counted each of them.
\<close>

lemma insert_matches_Inr:
  "list_all bindable ms \<Longrightarrow>
   insert_matches pid ms (d, n) =
     Inr (fold (execute_insert_or_ignore pid) ms d, n + int (length ms))"
  by (induction ms arbitrary: d n) (simp_all add: insert_or_ignore_match_def)

lemma insert_matches_Inl:
  "\<not> list_all bindable ms \<Longrightarrow> insert_matches pid ms (d, n) = Inl OverflowError"
  by (induction ms arbitrary: d n) (simp_all add: insert_or_ignore_match_def)

lemma fold_players [simp]:
  "players (fold (execute_insert_or_ignore pid) ms d) = players d"
  by (induction ms arbitrary: d) simp_all

lemma fold_distinct_stored:
  "distinct (stored_replay_ids d) \<Longrightarrow>
   distinct (stored_replay_ids (fold (execute_insert_or_ignore pid) ms d))"
  by (induction ms arbitrary: d) (simp_all add: distinct_stored_step)

lemma fold_distinct_of:
  "distinct (replay_ids_of q d) \<Longrightarrow>
   distinct (replay_ids_of q (fold (execute_insert_or_ignore pid) ms d))"
  by (induction ms arbitrary: d) (simp_all add: distinct_of_step)


lemma fold_rows_with:
  "r \<in> set (stored_replay_ids d) \<Longrightarrow>
   filter (\<lambda>row. replay_id row = Some r)
     (match_history (fold (execute_insert_or_ignore pid) ms d)) =
   filter (\<lambda>row. replay_id row = Some r) (match_history d)"
proof (induction ms arbitrary: d)
  case Nil
  show ?case by simp
next
  case (Cons m ms)
  from Cons.prems have "r \<in> set (stored_replay_ids (execute_insert_or_ignore pid m d))"
    using stored_mono_step [of d pid m] by blast
  from Cons.IH [OF this] Cons.prems show ?case
    by (simp add: rows_with_step)
qed



lemma add_match_history_unfold:
  "\<exists>p. find (\<lambda>p. player_name p = name) (players (insert_or_ignore_player name now1 d)) = Some p \<and>
       add_match_history name ms now1 now2 d =
         (if list_all bindable ms
          then (update_player (pl_player_id p) now2
                  (fold (execute_insert_or_ignore (pl_player_id p)) ms
                     (insert_or_ignore_player name now1 d)),
                Inr (int (length ms)))
          else (insert_or_ignore_player name now1 d, Inl OverflowError))"
proof -
  obtain p where p: "find (\<lambda>p. player_name p = name) (players (insert_or_ignore_player name now1 d)) = Some p"
    and a: "add_player name now1 d = Inr (pl_player_id p, insert_or_ignore_player name now1 d)"
    using add_player_Inr by blast
  show ?thesis
  proof (cases "list_all bindable ms")
    case True
    with p a show ?thesis
      by (simp add: add_match_history_def insert_matches_Inr)
  next
    case False
    with p a show ?thesis
      by (simp add: add_match_history_def insert_matches_Inl)
  qed
qed

lemma stored_update_player [simp]: "stored_replay_ids (update_player pid now d) = stored_replay_ids d"
  by (simp add: stored_replay_ids_def)

lemma replay_ids_of_update_player [simp]: "replay_ids_of q (update_player pid now d) = replay_ids_of q d"
  by (simp add: replay_ids_of_def)

lemma stored_insert_or_ignore_player [simp]:
  "stored_replay_ids (insert_or_ignore_player name now d) = stored_replay_ids d"
  by (simp add: stored_replay_ids_def)

lemma replay_ids_of_insert_or_ignore_player [simp]:
  "replay_ids_of q (insert_or_ignore_player name now d) = replay_ids_of q d"
  by (simp add: replay_ids_of_def)


lemma filter_map_preserve:
  "(\<And>x. P (f x) = P x) \<Longrightarrow> filter P (map f xs) = map f (filter P xs)"
  by (induction xs) simp_all



lemma get_player_stats_update_player [simp]:
  "get_player_stats name (update_player pid now d) = get_player_stats name d"
proof -
  have "\<And>m :: match_row. map (\<lambda>p. m) (filter (\<lambda>p. player_id m = pl_player_id p \<and> player_name p = name) (players (update_player pid now d)))
     = map (\<lambda>p. m) (filter (\<lambda>p. player_id m = pl_player_id p \<and> player_name p = name) (players d))"
    by (simp add: update_player_def filter_map_preserve o_def)
  then show ?thesis by (simp add: get_player_stats_def)
qed




lemmas store_defs = store_after_def reported_def add_match_history_def add_player_def
  insert_or_ignore_player_def insert_or_ignore_match_def execute_insert_or_ignore_def
  bindable_def int64_ok_def replay_id_conflict_def
  update_player_def count_matches_def next_rowid_def row_of_match_def empty_db_def
  get_player_stats_def total_games_of_def player_exists_def test_match_def
  test_match_no_id_def test_match_too_large_def stored_replay_ids_def replay_ids_of_def Let_def


text \<open>
  A call returns exactly when every integer of the batch fits in 64 bits; otherwise it
  raises OverflowError.
\<close>

lemma add_match_history_returns_iff:
  "(\<exists>games_added. snd (add_match_history name ms now1 now2 d) = Inr games_added) \<longleftrightarrow>
   list_all bindable ms"
  using add_match_history_unfold [where name = name and ms = ms and ?now1.0 = now1
      and ?now2.0 = now2 and d = d]
  by (auto split: if_splits)

text \<open>
  Whatever the outcome of a call, the non-null replay ids stay pairwise distinct, for each
  player and over the whole table, and a replay id that is already stored, for whichever
  player, gets no further row.
\<close>

lemma replay_ids_stay_unique:
  "((\<forall>pid. distinct (replay_ids_of pid d)) \<longrightarrow>
      (\<forall>pid. distinct (replay_ids_of pid (fst (add_match_history name ms now1 now2 d))))) \<and>
   (distinct (stored_replay_ids d) \<longrightarrow>
      distinct (stored_replay_ids (fst (add_match_history name ms now1 now2 d)))) \<and>
   (\<forall>r \<in> set (stored_replay_ids d).
      filter (\<lambda>row. replay_id row = Some r)
        (match_history (fst (add_match_history name ms now1 now2 d))) =
      filter (\<lambda>row. replay_id row = Some r) (match_history d))"
proof -
  from add_match_history_unfold [where name = name and ms = ms and ?now1.0 = now1
        and ?now2.0 = now2 and d = d]
  obtain p :: player_row where
    "add_match_history name ms now1 now2 d =
         (if list_all bindable ms
          then (update_player (pl_player_id p) now2
                  (fold (execute_insert_or_ignore (pl_player_id p)) ms
                     (insert_or_ignore_player name now1 d)),
                Inr (int (length ms)))
          else (insert_or_ignore_player name now1 d, Inl OverflowError))"
    by blast
  then show ?thesis
    by (auto simp: fold_distinct_of fold_distinct_stored fold_rows_with)
qed

subsection \<open>One record for each tracked player\<close>

text \<open>
  C1. The same replay does not produce a record for each tracked player: after the
  replay \<open>test123\<close> has been stored for player A, the same record ingested for player B
  is skipped. B is created, the call reports one new game, and B has no match row, while
  A has one.
\<close>

theorem same_replay_skipped_for_second_player:
  "player_exists ''B''
     (store_after ''B'' [test_match] 2 (store_after ''A'' [test_match] 1 empty_db)) \<and>
   reported ''B'' [test_match] 2 (store_after ''A'' [test_match] 1 empty_db) = Some 1 \<and>
   get_player_stats ''B''
     (store_after ''B'' [test_match] 2 (store_after ''A'' [test_match] 1 empty_db)) = [] \<and>
   length (get_player_stats ''A''
     (store_after ''B'' [test_match] 2 (store_after ''A'' [test_match] 1 empty_db))) = 1"
  by (simp add: store_defs)

subsection \<open>The reported count\<close>

text \<open>
  C2. The count reported by \<open>add_match_history\<close> is not the number of rows it inserted: a
  second ingest of the test record for the same player reports 1 and leaves the table as
  it was.
\<close>

theorem games_added_counts_skipped_record:
  "reported ''TestPlayer'' [test_match] 2
     (store_after ''TestPlayer'' [test_match] 1 empty_db) = Some 1 \<and>
   match_history (store_after ''TestPlayer'' [test_match] 2
     (store_after ''TestPlayer'' [test_match] 1 empty_db)) =
   match_history (store_after ''TestPlayer'' [test_match] 1 empty_db) \<and>
   length (match_history (store_after ''TestPlayer'' [test_match] 1 empty_db)) = 1"
  by (simp add: store_defs)

subsection \<open>Idempotence\<close>




section \<open>Properties of the Analytics Engine\<close>

subsection \<open>Auxiliary facts\<close>

lemma sum_invert:
  "sum_list (map (\<lambda>x. invert (won x)) df) = - sum_list (map won df) - int (length df)"
  by (induction df) (simp_all add: invert_def)

text \<open>
  On every dataset with rows, the wins and the losses of the summary add up to minus the
  number of rows.
\<close>

lemma wins_plus_losses:
  "get_summary_stats df = Some s \<Longrightarrow> s_wins s + s_losses s = - s_total_games s"
  by (cases df) (auto simp: Let_def sum_invert)

lemma head_df_nonneg: "0 \<le> n \<Longrightarrow> head_df n xs = take (nat n) xs"
  by (simp add: head_df_def)

lemma tail_df_nonneg: "0 \<le> n \<Longrightarrow> tail_df n xs = rev (take (nat n) (rev xs))"
  by (cases "n = 0") (simp_all add: tail_df_def take_rev)

lemma length_sort_values_date [simp]: "length (sort_values_date df) = length df"
  by (simp add: sort_values_date_def)

lemma mset_sort_values_date [simp]: "mset (sort_values_date df) = mset df"
  by (simp add: sort_values_date_def)

lemma sorted_sort_values_date: "sorted (map na_last_key (sort_values_date df))"
  by (simp add: sort_values_date_def)

lemma earliest_rows_are_earliest:
  "mset (earliest_rows n df) \<subseteq># mset df \<and>
   (\<forall>a \<in> set (earliest_rows n df). \<forall>b \<in># mset df - mset (earliest_rows n df).
      na_last_key a \<le> na_last_key b)"
proof -
  define s where "s = sort_values_date df"
  have split: "take (nat n) s @ drop (nat n) s = s" by simp
  have m: "mset df = mset (take (nat n) s) + mset (drop (nat n) s)"
    by (metis mset_append mset_sort_values_date s_def split)
  have "sorted (map na_last_key (take (nat n) s @ drop (nat n) s))"
    using sorted_sort_values_date [of df] by (simp add: s_def)
  then have "\<forall>a \<in> set (take (nat n) s). \<forall>b \<in> set (drop (nat n) s). na_last_key a \<le> na_last_key b"
    unfolding map_append sorted_append by auto
  with m show ?thesis
    by (simp add: earliest_rows_def s_def [symmetric])
qed

lemma latest_rows_eq_drop:
  "latest_rows n df = drop (length df - nat n) (sort_values_date df)"
  by (simp add: latest_rows_def take_rev)

lemma latest_rows_are_latest:
  "mset (latest_rows n df) \<subseteq># mset df \<and>
   (\<forall>a \<in> set (latest_rows n df). \<forall>b \<in># mset df - mset (latest_rows n df).
      na_last_key b \<le> na_last_key a)"
proof -
  define s where "s = sort_values_date df"
  define k where "k = length df - nat n"
  have split: "take k s @ drop k s = s" by simp
  have m: "mset df = mset (take k s) + mset (drop k s)"
    by (metis mset_append mset_sort_values_date s_def split)
  have "sorted (map na_last_key (take k s @ drop k s))"
    using sorted_sort_values_date [of df] by (simp add: s_def)
  then have "\<forall>a \<in> set (drop k s). \<forall>b \<in> set (take k s). na_last_key b \<le> na_last_key a"
    unfolding map_append sorted_append by auto
  with m show ?thesis
    by (simp add: latest_rows_eq_drop s_def [symmetric] k_def [symmetric])
qed

lemma classify_eq:
  "classify v hi lo label sw = (fst sw @ strong v hi label, snd sw @ weak v hi lo label)"
  by (simp add: classify_def strong_def weak_def)

lemma strong_at_threshold [simp]: "strong (Some t) t label = []"
  by (simp add: strong_def fgt_def)

lemma weak_at_threshold [simp]: "weak (Some lo) hi lo label = []"
  by (simp add: weak_def flt_def)

lemma weak_at_high [simp]: "lo \<le> hi \<Longrightarrow> weak (Some hi) hi lo label = []"
  by (simp add: weak_def flt_def)

lemma strong_at_low [simp]: "lo \<le> hi \<Longrightarrow> strong (Some lo) hi label = []"
  by (simp add: strong_def fgt_def)

lemma strong_no: "\<not> fgt v hi \<Longrightarrow> strong v hi label = []"
  by (simp add: strong_def)

lemma weak_no: "\<not> flt v lo \<Longrightarrow> weak v hi lo label = []"
  by (simp add: weak_def)

lemma notin_strong: "x \<noteq> label \<Longrightarrow> x \<notin> set (strong v hi label)"
  by (simp add: strong_def)

lemma notin_weak: "x \<noteq> label \<Longrightarrow> x \<notin> set (weak v hi lo label)"
  by (simp add: weak_def)

lemma get_strengths_and_weaknesses_eq:
  "df \<noteq> [] \<Longrightarrow>
   get_strengths_and_weaknesses df =
     Some \<lparr>strengths =
             (let s = strong (int_mean (map goals df)) (3 / 2) ''Goal scoring'' @
                      strong (int_mean (map assists df)) (6 / 5) ''Playmaking'' @
                      strong (int_mean (map saves df)) (3 / 2) ''Defense'' @
                      strong (series_mean (map shooting_percentage df)) 40 ''Shot accuracy''
              in if s \<noteq> [] then s else [''Consistent all-around player'']),
           weaknesses =
             (let w = weak (int_mean (map goals df)) (3 / 2) (4 / 5) ''Goal scoring'' @
                      weak (int_mean (map assists df)) (6 / 5) (3 / 5) ''Playmaking'' @
                      weak (int_mean (map saves df)) (3 / 2) (4 / 5) ''Defense'' @
                      weak (series_mean (map shooting_percentage df)) 40 25 ''Shot accuracy''
              in if w \<noteq> [] then w else [''Well-rounded performance'']),
           metrics = \<lparr>pct_goals = int_mean (map goals df),
                      pct_assists = int_mean (map assists df),
                      pct_saves = int_mean (map saves df),
                      pct_shooting_pct = series_mean (map shooting_percentage df)\<rparr>\<rparr>"
  by (simp add: get_strengths_and_weaknesses_def Let_def classify_eq)

lemma label_notin:
  "l \<noteq> ''Consistent all-around player'' \<Longrightarrow>
   l \<notin> set a \<Longrightarrow> l \<notin> set b \<Longrightarrow> l \<notin> set c \<Longrightarrow> l \<notin> set e \<Longrightarrow>
   l \<notin> set (let s = a @ b @ c @ e in if s \<noteq> [] then s else [''Consistent all-around player''])"
  by (simp add: Let_def)

lemma label_notin_w:
  "l \<noteq> ''Well-rounded performance'' \<Longrightarrow>
   l \<notin> set a \<Longrightarrow> l \<notin> set b \<Longrightarrow> l \<notin> set c \<Longrightarrow> l \<notin> set e \<Longrightarrow>
   l \<notin> set (let s = a @ b @ c @ e in if s \<noteq> [] then s else [''Well-rounded performance''])"
  by (simp add: Let_def)

lemmas analytics_defs = compare_performance_def test_row_def row_of_match_def test_match_def
  sort_values_date_def na_last_key_def head_df_def tail_df_def calc_stats_def int_mean_def
  series_mean_def fsub_def win_rate_pct_def latest_rows_def earliest_rows_def two_games_def

subsection \<open>Wins and losses of the summary\<close>

text \<open>
  C4. \<open>wins + losses = total_games\<close> fails on the dataset that the store returns for one
  won game: \<open>won\<close> comes back from SQLite as the integer 1, \<open>~\<close> is then the bitwise
  complement, and the summary has 1 game, 1 win and \<open>-2\<close> losses.
\<close>

theorem losses_of_one_stored_win:
  "map_option (\<lambda>s. (s_total_games s, s_wins s, s_losses s))
     (get_summary_stats
        (get_player_stats ''TestPlayer'' (store_after ''TestPlayer'' [test_match] 1 empty_db))) =
   Some (1, 1, - 2)"
  by (simp add: store_defs invert_def win_rate_pct_def int_mean_def series_mean_def)

subsection \<open>Early against recent games\<close>

text \<open>
  C5 (as amended). \<open>compare_performance\<close> returns the empty result exactly when
  \<open>len(df) < first_n + last_n\<close>. Otherwise, for a dataset with rows and window sizes that
  are not negative, it returns a result whose \<open>goals_change\<close> is the mean of the goals
  of the \<open>last_n\<close> latest rows minus the mean of the goals of the \<open>first_n\<close> earliest
  rows, and the two windows have exactly \<open>first_n\<close> and \<open>last_n\<close> rows. The windows are
  the earliest and the latest by date: each is a part of the dataset, no row of the
  earliest window is later than a row outside it, and no row of the latest window is
  earlier than a row outside it (rows without a date count as latest).
\<close>

theorem compare_performance_windows:
  "(compare_performance df first_n last_n = Inr None \<longleftrightarrow> int (length df) < first_n + last_n) \<and>
   (df \<noteq> [] \<and> 0 \<le> first_n \<and> 0 \<le> last_n \<and> first_n + last_n \<le> int (length df) \<longrightarrow>
      (\<exists>c. compare_performance df first_n last_n = Inr (Some c) \<and>
           goals_change (improvement c) =
             fsub (int_mean (map goals (latest_rows last_n df)))
                  (int_mean (map goals (earliest_rows first_n df))) \<and>
           int (length (earliest_rows first_n df)) = first_n \<and>
           int (length (latest_rows last_n df)) = last_n)) \<and>
   mset (earliest_rows first_n df) \<subseteq># mset df \<and>
   (\<forall>a \<in> set (earliest_rows first_n df). \<forall>b \<in># mset df - mset (earliest_rows first_n df).
      na_last_key a \<le> na_last_key b) \<and>
   mset (latest_rows last_n df) \<subseteq># mset df \<and>
   (\<forall>a \<in> set (latest_rows last_n df). \<forall>b \<in># mset df - mset (latest_rows last_n df).
      na_last_key b \<le> na_last_key a)"
proof -
  have guard: "compare_performance df first_n last_n = Inr None \<longleftrightarrow>
               int (length df) < first_n + last_n"
    by (simp add: compare_performance_def Let_def)
  have result: "df \<noteq> [] \<and> 0 \<le> first_n \<and> 0 \<le> last_n \<and> first_n + last_n \<le> int (length df) \<longrightarrow>
      (\<exists>c. compare_performance df first_n last_n = Inr (Some c) \<and>
           goals_change (improvement c) =
             fsub (int_mean (map goals (latest_rows last_n df)))
                  (int_mean (map goals (earliest_rows first_n df))) \<and>
           int (length (earliest_rows first_n df)) = first_n \<and>
           int (length (latest_rows last_n df)) = last_n)"
  proof
    assume h: "df \<noteq> [] \<and> 0 \<le> first_n \<and> 0 \<le> last_n \<and> first_n + last_n \<le> int (length df)"
    then have e: "head_df first_n (sort_values_date df) = earliest_rows first_n df"
      by (simp add: head_df_nonneg earliest_rows_def)
    from h have l: "tail_df last_n (sort_values_date df) = latest_rows last_n df"
      by (simp add: tail_df_nonneg latest_rows_def)
    from h have le: "int (length (earliest_rows first_n df)) = first_n"
      by (auto simp: earliest_rows_def min_def)
    from h have ll: "int (length (latest_rows last_n df)) = last_n"
      by (auto simp: latest_rows_def min_def)
    from h e l le ll show "\<exists>c. compare_performance df first_n last_n = Inr (Some c) \<and>
           goals_change (improvement c) =
             fsub (int_mean (map goals (latest_rows last_n df)))
                  (int_mean (map goals (earliest_rows first_n df))) \<and>
           int (length (earliest_rows first_n df)) = first_n \<and>
           int (length (latest_rows last_n df)) = last_n"
      by (simp add: compare_performance_def Let_def calc_stats_def)
  qed
  from guard result earliest_rows_are_earliest [of first_n df] latest_rows_are_latest [of last_n df]
  show ?thesis by blast
qed

theorem compare_performance_windows_witness:
  "two_games \<noteq> [] \<and> (0::int) \<le> 1 \<and> (1::int) + 1 \<le> int (length two_games) \<and>
   map_sum id (map_option (\<lambda>c. goals_change (improvement c)))
     (compare_performance two_games 1 1) = Inr (Some (Some 4)) \<and>
   int (length two_games) < 2 + 1 \<and>
   compare_performance two_games 2 1 = Inr None"
proof -
  have h: "two_games \<noteq> [] \<and> (0::int) \<le> 1 \<and> (0::int) \<le> 1 \<and> (1::int) + 1 \<le> int (length two_games)"
    by (simp add: two_games_def)
  have v: "fsub (int_mean (map goals (latest_rows 1 two_games)))
                (int_mean (map goals (earliest_rows 1 two_games))) = Some 4"
    by (simp add: analytics_defs)
  have s: "int (length two_games) < 2 + 1"
    by (simp add: two_games_def)
  from compare_performance_windows [of two_games 1 1] h
  obtain c where "compare_performance two_games 1 1 = Inr (Some c)" and
    "goals_change (improvement c) =
       fsub (int_mean (map goals (latest_rows 1 two_games)))
            (int_mean (map goals (earliest_rows 1 two_games)))"
    by blast
  then have 1: "map_sum id (map_option (\<lambda>c. goals_change (improvement c)))
     (compare_performance two_games 1 1) = Inr (Some (Some 4))"
    using v by simp
  from compare_performance_windows [of two_games 2 1] s
  have 2: "compare_performance two_games 2 1 = Inr None"
    by blast
  from h s 1 2 show ?thesis by simp
qed

text \<open>
  C5 as it is written fails for a negative window size: with \<open>first_n = -1\<close> and
  \<open>last_n = 3\<close> on two games, \<open>head(-1)\<close> is the older game and \<open>tail(3)\<close> is both, so
  \<open>goals_change\<close> is 2, while the \<open>-1\<close> earliest rows are no rows and have no mean.
\<close>

theorem negative_window_counterexample:
  "map_sum id (map_option (\<lambda>c. goals_change (improvement c)))
     (compare_performance two_games (- 1) 3) = Inr (Some (Some 2)) \<and>
   fsub (int_mean (map goals (latest_rows 3 two_games)))
        (int_mean (map goals (earliest_rows (- 1) two_games))) = None"
  by (simp add: analytics_defs)

subsection \<open>The empty dataset\<close>

text \<open>
  C8 (as amended). On the empty dataset every operation returns its empty result, and
  \<open>compare_performance\<close> does so whenever \<open>first_n + last_n\<close> is positive, as with its
  defaults.
\<close>

theorem empty_dataset_results:
  "get_summary_stats [] = None \<and>
   get_stats_by_playlist [] = [] \<and>
   get_recent_form [] num_games = None \<and>
   (0 < first_n + last_n \<longrightarrow> compare_performance [] first_n last_n = Inr None) \<and>
   get_strengths_and_weaknesses [] = None \<and>
   get_performance_trend [] = []"
  by (simp add: get_stats_by_playlist_def get_recent_form_def compare_performance_def
      get_strengths_and_weaknesses_def get_performance_trend_def)

theorem empty_dataset_results_witness:
  "(0::int) < 10 + 10 \<and> compare_performance [] 10 10 = Inr None"
  using empty_dataset_results [of 10 10 10] by simp

text \<open>
  C8 as it is written fails for \<open>compare_performance\<close> with \<open>first_n = last_n = 0\<close>: the
  guard \<open>0 < 0\<close> is false and the function does not return the empty result.
\<close>

theorem compare_performance_empty_counterexample:
  "compare_performance [] 0 0 \<noteq> Inr None"
  by (simp add: compare_performance_def)

subsection \<open>Strengths and weaknesses\<close>

text \<open>
  C10. On a dataset with rows, \<open>get_strengths_and_weaknesses\<close> returns a result whose
  metrics are the four means. A metric whose mean equals one of its two thresholds is
  neither in the strengths nor in the weaknesses; when no mean is above its upper
  threshold the strengths are exactly \<open>["Consistent all-around player"]\<close>, and when no
  mean is below its lower threshold the weaknesses are exactly
  \<open>["Well-rounded performance"]\<close>.
\<close>

theorem thresholds_are_strict:
  assumes "df \<noteq> []"
  shows "\<exists>sw. get_strengths_and_weaknesses df = Some sw \<and>
     pct_goals (metrics sw) = int_mean (map goals df) \<and>
     pct_assists (metrics sw) = int_mean (map assists df) \<and>
     pct_saves (metrics sw) = int_mean (map saves df) \<and>
     pct_shooting_pct (metrics sw) = series_mean (map shooting_percentage df) \<and>
     (int_mean (map goals df) = Some (3 / 2) \<or> int_mean (map goals df) = Some (4 / 5) \<longrightarrow>
        ''Goal scoring'' \<notin> set (strengths sw) \<and> ''Goal scoring'' \<notin> set (weaknesses sw)) \<and>
     (int_mean (map assists df) = Some (6 / 5) \<or> int_mean (map assists df) = Some (3 / 5) \<longrightarrow>
        ''Playmaking'' \<notin> set (strengths sw) \<and> ''Playmaking'' \<notin> set (weaknesses sw)) \<and>
     (int_mean (map saves df) = Some (3 / 2) \<or> int_mean (map saves df) = Some (4 / 5) \<longrightarrow>
        ''Defense'' \<notin> set (strengths sw) \<and> ''Defense'' \<notin> set (weaknesses sw)) \<and>
     (series_mean (map shooting_percentage df) = Some 40 \<or>
      series_mean (map shooting_percentage df) = Some 25 \<longrightarrow>
        ''Shot accuracy'' \<notin> set (strengths sw) \<and> ''Shot accuracy'' \<notin> set (weaknesses sw)) \<and>
     (\<not> fgt (int_mean (map goals df)) (3 / 2) \<and> \<not> fgt (int_mean (map assists df)) (6 / 5) \<and>
      \<not> fgt (int_mean (map saves df)) (3 / 2) \<and>
      \<not> fgt (series_mean (map shooting_percentage df)) 40 \<longrightarrow>
        strengths sw = [''Consistent all-around player'']) \<and>
     (\<not> flt (int_mean (map goals df)) (4 / 5) \<and> \<not> flt (int_mean (map assists df)) (3 / 5) \<and>
      \<not> flt (int_mean (map saves df)) (4 / 5) \<and>
      \<not> flt (series_mean (map shooting_percentage df)) 25 \<longrightarrow>
        weaknesses sw = [''Well-rounded performance''])"
proof -
  note eq = get_strengths_and_weaknesses_eq [OF assms]
  define sw where "sw = the (get_strengths_and_weaknesses df)"
  have some: "get_strengths_and_weaknesses df = Some sw"
    by (simp add: sw_def eq)
  have st: "strengths sw =
             (let s = strong (int_mean (map goals df)) (3 / 2) ''Goal scoring'' @
                      strong (int_mean (map assists df)) (6 / 5) ''Playmaking'' @
                      strong (int_mean (map saves df)) (3 / 2) ''Defense'' @
                      strong (series_mean (map shooting_percentage df)) 40 ''Shot accuracy''
              in if s \<noteq> [] then s else [''Consistent all-around player''])"
    by (simp add: sw_def eq)
  have wk: "weaknesses sw =
             (let w = weak (int_mean (map goals df)) (3 / 2) (4 / 5) ''Goal scoring'' @
                      weak (int_mean (map assists df)) (6 / 5) (3 / 5) ''Playmaking'' @
                      weak (int_mean (map saves df)) (3 / 2) (4 / 5) ''Defense'' @
                      weak (series_mean (map shooting_percentage df)) 40 25 ''Shot accuracy''
              in if w \<noteq> [] then w else [''Well-rounded performance''])"
    by (simp add: sw_def eq)
  have mt: "pct_goals (metrics sw) = int_mean (map goals df)"
    "pct_assists (metrics sw) = int_mean (map assists df)"
    "pct_saves (metrics sw) = int_mean (map saves df)"
    "pct_shooting_pct (metrics sw) = series_mean (map shooting_percentage df)"
    by (simp_all add: sw_def eq)
  have g: "int_mean (map goals df) = Some (3 / 2) \<or> int_mean (map goals df) = Some (4 / 5) \<longrightarrow>
        ''Goal scoring'' \<notin> set (strengths sw) \<and> ''Goal scoring'' \<notin> set (weaknesses sw)"
    unfolding st wk
    by (intro impI conjI label_notin label_notin_w; elim disjE; simp add: strong_def weak_def fgt_def flt_def)
  have a: "int_mean (map assists df) = Some (6 / 5) \<or> int_mean (map assists df) = Some (3 / 5) \<longrightarrow>
        ''Playmaking'' \<notin> set (strengths sw) \<and> ''Playmaking'' \<notin> set (weaknesses sw)"
    unfolding st wk
    by (intro impI conjI label_notin label_notin_w; elim disjE; simp add: strong_def weak_def fgt_def flt_def)
  have s: "int_mean (map saves df) = Some (3 / 2) \<or> int_mean (map saves df) = Some (4 / 5) \<longrightarrow>
        ''Defense'' \<notin> set (strengths sw) \<and> ''Defense'' \<notin> set (weaknesses sw)"
    unfolding st wk
    by (intro impI conjI label_notin label_notin_w; elim disjE; simp add: strong_def weak_def fgt_def flt_def)
  have p: "series_mean (map shooting_percentage df) = Some 40 \<or>
      series_mean (map shooting_percentage df) = Some 25 \<longrightarrow>
        ''Shot accuracy'' \<notin> set (strengths sw) \<and> ''Shot accuracy'' \<notin> set (weaknesses sw)"
    unfolding st wk
    by (intro impI conjI label_notin label_notin_w; elim disjE; simp add: strong_def weak_def fgt_def flt_def)
  have ds: "\<not> fgt (int_mean (map goals df)) (3 / 2) \<and> \<not> fgt (int_mean (map assists df)) (6 / 5) \<and>
      \<not> fgt (int_mean (map saves df)) (3 / 2) \<and>
      \<not> fgt (series_mean (map shooting_percentage df)) 40 \<longrightarrow>
        strengths sw = [''Consistent all-around player'']"
    unfolding st by (simp add: strong_no)
  have dw: "\<not> flt (int_mean (map goals df)) (4 / 5) \<and> \<not> flt (int_mean (map assists df)) (3 / 5) \<and>
      \<not> flt (int_mean (map saves df)) (4 / 5) \<and>
      \<not> flt (series_mean (map shooting_percentage df)) 25 \<longrightarrow>
        weaknesses sw = [''Well-rounded performance'']"
    unfolding wk by (simp add: weak_no)
  from some mt g a s p ds dw show ?thesis by blast
qed


theorem thresholds_are_strict_witness:
  "threshold_df \<noteq> [] \<and>
   int_mean (map goals threshold_df) = Some (4 / 5) \<and>
   int_mean (map assists threshold_df) = Some (3 / 5) \<and>
   int_mean (map saves threshold_df) = Some (4 / 5) \<and>
   series_mean (map shooting_percentage threshold_df) = Some 25 \<and>
   map_option strengths (get_strengths_and_weaknesses threshold_df) =
     Some [''Consistent all-around player''] \<and>
   map_option weaknesses (get_strengths_and_weaknesses threshold_df) =
     Some [''Well-rounded performance''] \<and>
   upper_threshold_df \<noteq> [] \<and>
   int_mean (map goals upper_threshold_df) = Some (3 / 2) \<and>
   int_mean (map assists upper_threshold_df) = Some (6 / 5) \<and>
   int_mean (map saves upper_threshold_df) = Some (3 / 2) \<and>
   series_mean (map shooting_percentage upper_threshold_df) = Some 40 \<and>
   map_option strengths (get_strengths_and_weaknesses upper_threshold_df) =
     Some [''Consistent all-around player''] \<and>
   map_option weaknesses (get_strengths_and_weaknesses upper_threshold_df) =
     Some [''Well-rounded performance'']"
proof -
  have ne: "threshold_df \<noteq> []"
    by (simp add: threshold_df_def)
  have g: "int_mean (map goals threshold_df) = Some (4 / 5)"
    by (simp add: threshold_df_def threshold_row_def int_mean_def series_mean_def)
  have a: "int_mean (map assists threshold_df) = Some (3 / 5)"
    by (simp add: threshold_df_def threshold_row_def int_mean_def series_mean_def)
  have s: "int_mean (map saves threshold_df) = Some (4 / 5)"
    by (simp add: threshold_df_def threshold_row_def int_mean_def series_mean_def)
  have p: "series_mean (map shooting_percentage threshold_df) = Some 25"
    by (simp add: threshold_df_def threshold_row_def series_mean_def)
  have nf: "\<not> fgt (int_mean (map goals threshold_df)) (3 / 2) \<and>
            \<not> fgt (int_mean (map assists threshold_df)) (6 / 5) \<and>
            \<not> fgt (int_mean (map saves threshold_df)) (3 / 2) \<and>
            \<not> fgt (series_mean (map shooting_percentage threshold_df)) 40"
    by (simp add: g a s p fgt_def)
  have nl: "\<not> flt (int_mean (map goals threshold_df)) (4 / 5) \<and>
            \<not> flt (int_mean (map assists threshold_df)) (3 / 5) \<and>
            \<not> flt (int_mean (map saves threshold_df)) (4 / 5) \<and>
            \<not> flt (series_mean (map shooting_percentage threshold_df)) 25"
    by (simp add: g a s p flt_def)
  from thresholds_are_strict [OF ne] nf nl
  obtain sw where "get_strengths_and_weaknesses threshold_df = Some sw"
    and "strengths sw = [''Consistent all-around player'']"
    and "weaknesses sw = [''Well-rounded performance'']"
    by blast
  with ne g a s p have lower:
    "threshold_df \<noteq> [] \<and>
     int_mean (map goals threshold_df) = Some (4 / 5) \<and>
     int_mean (map assists threshold_df) = Some (3 / 5) \<and>
     int_mean (map saves threshold_df) = Some (4 / 5) \<and>
     series_mean (map shooting_percentage threshold_df) = Some 25 \<and>
     map_option strengths (get_strengths_and_weaknesses threshold_df) =
       Some [''Consistent all-around player''] \<and>
     map_option weaknesses (get_strengths_and_weaknesses threshold_df) =
       Some [''Well-rounded performance'']"
    by simp
  have une: "upper_threshold_df \<noteq> []"
    by (simp add: upper_threshold_df_def)
  have ug: "int_mean (map goals upper_threshold_df) = Some (3 / 2)"
    by (simp add: upper_threshold_df_def threshold_row_def int_mean_def series_mean_def)
  have ua: "int_mean (map assists upper_threshold_df) = Some (6 / 5)"
    by (simp add: upper_threshold_df_def threshold_row_def int_mean_def series_mean_def)
  have us: "int_mean (map saves upper_threshold_df) = Some (3 / 2)"
    by (simp add: upper_threshold_df_def threshold_row_def int_mean_def series_mean_def)
  have up: "series_mean (map shooting_percentage upper_threshold_df) = Some 40"
    by (simp add: upper_threshold_df_def threshold_row_def series_mean_def)
  have unf: "\<not> fgt (int_mean (map goals upper_threshold_df)) (3 / 2) \<and>
            \<not> fgt (int_mean (map assists upper_threshold_df)) (6 / 5) \<and>
            \<not> fgt (int_mean (map saves upper_threshold_df)) (3 / 2) \<and>
            \<not> fgt (series_mean (map shooting_percentage upper_threshold_df)) 40"
    by (simp add: ug ua us up fgt_def)
  have unl: "\<not> flt (int_mean (map goals upper_threshold_df)) (4 / 5) \<and>
            \<not> flt (int_mean (map assists upper_threshold_df)) (3 / 5) \<and>
            \<not> flt (int_mean (map saves upper_threshold_df)) (4 / 5) \<and>
            \<not> flt (series_mean (map shooting_percentage upper_threshold_df)) 25"
    by (simp add: ug ua us up flt_def)
  from thresholds_are_strict [OF une] unf unl
  obtain usw where "get_strengths_and_weaknesses upper_threshold_df = Some usw"
    and "strengths usw = [''Consistent all-around player'']"
    and "weaknesses usw = [''Well-rounded performance'']"
    by blast
  with une ug ua us up have upper:
    "upper_threshold_df \<noteq> [] \<and>
     int_mean (map goals upper_threshold_df) = Some (3 / 2) \<and>
     int_mean (map assists upper_threshold_df) = Some (6 / 5) \<and>
     int_mean (map saves upper_threshold_df) = Some (3 / 2) \<and>
     series_mean (map shooting_percentage upper_threshold_df) = Some 40 \<and>
     map_option strengths (get_strengths_and_weaknesses upper_threshold_df) =
       Some [''Consistent all-around player''] \<and>
     map_option weaknesses (get_strengths_and_weaknesses upper_threshold_df) =
       Some [''Well-rounded performance'']"
    by simp
  from lower upper show ?thesis by simp
qed

section \<open>Properties of the Replay Client\<close>

subsection \<open>Auxiliary facts\<close>

lemma get_player_stats_from_replay_unfold:
  "get_player_stats_from_replay rd n =
     (case find (name_matches n) (players_of rd ''blue'') of
        Some p \<Rightarrow> Some (player_record rd ''blue'' p)
      | None \<Rightarrow>
          (case find (name_matches n) (players_of rd ''orange'') of
             Some p \<Rightarrow> Some (player_record rd ''orange'' p)
           | None \<Rightarrow> None))"
  by (simp add: get_player_stats_from_replay_def split: option.splits)

lemma match_won_player_record:
  "match_won (player_record rd c p) =
     (if c = ''blue'' then team_goals rd ''blue'' > team_goals rd ''orange''
      else team_goals rd ''orange'' > team_goals rd ''blue'')"
  by (simp add: player_record_def Let_def)

lemma match_team_player_record [simp]: "match_team (player_record rd c p) = c"
  by (simp add: player_record_def Let_def)

lemma match_player_name_player_record [simp]:
  "match_player_name (player_record rd c p) = json_name p"
  by (simp add: player_record_def Let_def)

lemma find_list_ex: "list_ex P xs \<Longrightarrow> \<exists>x. find P xs = Some x \<and> P x \<and> x \<in> set xs"
  by (induction xs) auto

lemma find_None_list_ex: "\<not> list_ex P xs \<Longrightarrow> find P xs = None"
  by (induction xs) auto

lemma find_first: "\<not> list_ex P pre \<Longrightarrow> P x \<Longrightarrow> find P (pre @ x # post) = Some x"
  by (induction pre) auto

lemma lower_foo [simp]: "lower ''Foo'' = ''foo''" "lower ''foo'' = ''foo''" "lower ''FOO'' = ''foo''"
  "lower ''Foobar'' = ''foobar''"
  by (simp_all add: lower_def lower_char_def)

lemma name_matches_foo:
  "name_matches ''foo'' p = (lower (get_or (json_name p) []) = ''foo'')"
  "name_matches ''FOO'' p = (lower (get_or (json_name p) []) = ''foo'')"
  "name_matches ''Foobar'' p = (lower (get_or (json_name p) []) = ''foobar'')"
  by (simp_all add: name_matches_def)

lemmas client_defs = get_player_stats_from_replay_def players_of_def get_team_def
  team_goals_def name_matches_def lower_def lower_char_def get_or_def player_record_def
  mk_replay_def mk_team_def mk_player_def

subsection \<open>Win determination\<close>

text \<open>
  C6 (as amended). When the blue team has 3 goals and the orange team has 1, a lookup
  name found on the blue roster yields a blue record with \<open>won\<close> true, and a lookup name
  found on the orange roster and not on the blue roster yields an orange record with
  \<open>won\<close> false.
\<close>

theorem won_for_three_one:
  assumes "team_goals rd ''blue'' = 3" and "team_goals rd ''orange'' = 1"
  shows "(list_ex (name_matches n) (players_of rd ''blue'') \<longrightarrow>
            (\<exists>r. get_player_stats_from_replay rd n = Some r \<and>
                 match_team r = ''blue'' \<and> match_won r)) \<and>
         (list_ex (name_matches n) (players_of rd ''orange'') \<and>
          \<not> list_ex (name_matches n) (players_of rd ''blue'') \<longrightarrow>
            (\<exists>r. get_player_stats_from_replay rd n = Some r \<and>
                 match_team r = ''orange'' \<and> \<not> match_won r))"
proof (intro conjI impI)
  assume "list_ex (name_matches n) (players_of rd ''blue'')"
  then obtain p where "find (name_matches n) (players_of rd ''blue'') = Some p"
    using find_list_ex by blast
  with assms show "\<exists>r. get_player_stats_from_replay rd n = Some r \<and>
                 match_team r = ''blue'' \<and> match_won r"
    by (simp add: get_player_stats_from_replay_unfold match_won_player_record)
next
  assume h: "list_ex (name_matches n) (players_of rd ''orange'') \<and>
          \<not> list_ex (name_matches n) (players_of rd ''blue'')"
  then obtain p where "find (name_matches n) (players_of rd ''orange'') = Some p"
    using find_list_ex by blast
  moreover from h have "find (name_matches n) (players_of rd ''blue'') = None"
    by (simp add: find_None_list_ex)
  ultimately show "\<exists>r. get_player_stats_from_replay rd n = Some r \<and>
                 match_team r = ''orange'' \<and> \<not> match_won r"
    using assms by (simp add: get_player_stats_from_replay_unfold match_won_player_record)
qed

theorem won_for_three_one_witness:
  "team_goals (mk_replay [mk_player ''Foo'' 2] 3 [mk_player ''Bar'' 1] 1) ''blue'' = 3 \<and>
   team_goals (mk_replay [mk_player ''Foo'' 2] 3 [mk_player ''Bar'' 1] 1) ''orange'' = 1 \<and>
   list_ex (name_matches ''foo'') (players_of (mk_replay [mk_player ''Foo'' 2] 3 [mk_player ''Bar'' 1] 1) ''blue'') \<and>
   list_ex (name_matches ''bar'') (players_of (mk_replay [mk_player ''Foo'' 2] 3 [mk_player ''Bar'' 1] 1) ''orange'') \<and>
   \<not> list_ex (name_matches ''bar'') (players_of (mk_replay [mk_player ''Foo'' 2] 3 [mk_player ''Bar'' 1] 1) ''blue'') \<and>
   map_option match_won (get_player_stats_from_replay (mk_replay [mk_player ''Foo'' 2] 3 [mk_player ''Bar'' 1] 1) ''foo'') = Some True \<and>
   map_option match_won (get_player_stats_from_replay (mk_replay [mk_player ''Foo'' 2] 3 [mk_player ''Bar'' 1] 1) ''bar'') = Some False"
proof -
  define rd where "rd = mk_replay [mk_player ''Foo'' 2] 3 [mk_player ''Bar'' 1] 1"
  have b: "team_goals rd ''blue'' = 3" and o: "team_goals rd ''orange'' = 1"
    by (simp_all add: rd_def client_defs)
  have f: "list_ex (name_matches ''foo'') (players_of rd ''blue'')"
    by (simp add: rd_def client_defs)
  have g: "list_ex (name_matches ''bar'') (players_of rd ''orange'') \<and>
           \<not> list_ex (name_matches ''bar'') (players_of rd ''blue'')"
    by (simp add: rd_def client_defs)
  from won_for_three_one [OF b o, of "''foo''"] f
  have 1: "map_option match_won (get_player_stats_from_replay rd ''foo'') = Some True"
    by auto
  from won_for_three_one [OF b o, of "''bar''"] g
  have 2: "map_option match_won (get_player_stats_from_replay rd ''bar'') = Some False"
    by auto
  from b o f g 1 2 show ?thesis unfolding rd_def by simp
qed

text \<open>
  C6 as it is written fails when the name is on both rosters: the blue roster is scanned
  first, so the name found on the orange roster yields the blue record, with \<open>won\<close> true.
\<close>

theorem same_name_on_both_rosters_counterexample:
  "team_goals (mk_replay [mk_player ''Foo'' 2] 3 [mk_player ''Foo'' 0] 1) ''blue'' = 3 \<and>
   team_goals (mk_replay [mk_player ''Foo'' 2] 3 [mk_player ''Foo'' 0] 1) ''orange'' = 1 \<and>
   list_ex (name_matches ''Foo'')
     (players_of (mk_replay [mk_player ''Foo'' 2] 3 [mk_player ''Foo'' 0] 1) ''orange'') \<and>
   map_option match_won
     (get_player_stats_from_replay
        (mk_replay [mk_player ''Foo'' 2] 3 [mk_player ''Foo'' 0] 1) ''Foo'') = Some True"
  by (simp add: client_defs)

text \<open>
  C9. When the two teams have the same number of goals, a lookup name found on either
  roster yields a record, and every record that is returned has \<open>won\<close> false.
\<close>

theorem tie_is_no_win:
  assumes "team_goals rd ''blue'' = team_goals rd ''orange''"
  shows "(list_ex (name_matches n) (players_of rd ''blue'' @ players_of rd ''orange'') \<longrightarrow>
            (\<exists>r. get_player_stats_from_replay rd n = Some r \<and> \<not> match_won r)) \<and>
         (\<forall>r. get_player_stats_from_replay rd n = Some r \<longrightarrow> \<not> match_won r)"
proof -
  have a: "\<forall>r. get_player_stats_from_replay rd n = Some r \<longrightarrow> \<not> match_won r"
    using assms
    by (auto simp: get_player_stats_from_replay_unfold match_won_player_record
        split: option.splits)
  have "list_ex (name_matches n) (players_of rd ''blue'' @ players_of rd ''orange'') \<longrightarrow>
        get_player_stats_from_replay rd n \<noteq> None"
    by (auto simp: get_player_stats_from_replay_unfold list_ex_iff find_None_iff
        split: option.splits)
  with a show ?thesis by auto
qed

theorem tie_is_no_win_witness:
  "team_goals (mk_replay [mk_player ''Foo'' 2] 2 [mk_player ''Bar'' 1] 2) ''blue'' =
   team_goals (mk_replay [mk_player ''Foo'' 2] 2 [mk_player ''Bar'' 1] 2) ''orange'' \<and>
   map_option match_won
     (get_player_stats_from_replay
        (mk_replay [mk_player ''Foo'' 2] 2 [mk_player ''Bar'' 1] 2) ''foo'') = Some False \<and>
   map_option match_won
     (get_player_stats_from_replay
        (mk_replay [mk_player ''Foo'' 2] 2 [mk_player ''Bar'' 1] 2) ''bar'') = Some False"
proof -
  define rd where "rd = mk_replay [mk_player ''Foo'' 2] 2 [mk_player ''Bar'' 1] 2"
  have t: "team_goals rd ''blue'' = team_goals rd ''orange''"
    by (simp add: rd_def client_defs)
  have f: "list_ex (name_matches ''foo'') (players_of rd ''blue'' @ players_of rd ''orange'')"
    by (simp add: rd_def client_defs)
  have b: "list_ex (name_matches ''bar'') (players_of rd ''blue'' @ players_of rd ''orange'')"
    by (simp add: rd_def client_defs)
  from tie_is_no_win [OF t, of "''foo''"] f
  have 1: "map_option match_won (get_player_stats_from_replay rd ''foo'') = Some False"
    by auto
  from tie_is_no_win [OF t, of "''bar''"] b
  have 2: "map_option match_won (get_player_stats_from_replay rd ''bar'') = Some False"
    by auto
  from t 1 2 show ?thesis unfolding rd_def by simp
qed

subsection \<open>Name matching\<close>

text \<open>
  C7 (as amended). For a roster player \<open>p\<close> named \<open>Foo\<close>: the lookups \<open>foo\<close> and \<open>FOO\<close>
  return the record of \<open>p\<close> when \<open>p\<close> is the first entry, blue roster before orange
  roster, whose name is \<open>foo\<close> in any casing; whenever \<open>p\<close> is on a roster they return a
  record of a player whose name is \<open>foo\<close> in some casing; the lookup \<open>Foobar\<close> does not
  match \<open>p\<close> and never returns a record of a player named \<open>Foo\<close>.
\<close>

theorem foo_lookup:
  assumes "json_name p = Some ''Foo''"
  shows "(players_of rd ''blue'' = pre @ p # post \<and> \<not> list_ex (name_matches ''foo'') pre \<longrightarrow>
            get_player_stats_from_replay rd ''foo'' = Some (player_record rd ''blue'' p) \<and>
            get_player_stats_from_replay rd ''FOO'' = Some (player_record rd ''blue'' p)) \<and>
         (\<not> list_ex (name_matches ''foo'') (players_of rd ''blue'') \<and>
          players_of rd ''orange'' = pre @ p # post \<and> \<not> list_ex (name_matches ''foo'') pre \<longrightarrow>
            get_player_stats_from_replay rd ''foo'' = Some (player_record rd ''orange'' p) \<and>
            get_player_stats_from_replay rd ''FOO'' = Some (player_record rd ''orange'' p)) \<and>
         (p \<in> set (players_of rd ''blue'' @ players_of rd ''orange'') \<longrightarrow>
            (\<exists>r. get_player_stats_from_replay rd ''foo'' = Some r \<and>
                 lower (get_or (match_player_name r) []) = ''foo'') \<and>
            (\<exists>r. get_player_stats_from_replay rd ''FOO'' = Some r \<and>
                 lower (get_or (match_player_name r) []) = ''foo'')) \<and>
         \<not> name_matches ''Foobar'' p \<and>
         (\<forall>r. get_player_stats_from_replay rd ''Foobar'' = Some r \<longrightarrow>
              match_player_name r \<noteq> Some ''Foo'')"
proof -
  have m: "name_matches ''foo'' p" "name_matches ''FOO'' p"
    using assms by (simp_all add: name_matches_foo get_or_def)
  have eq: "name_matches ''FOO'' = name_matches ''foo''"
    by (rule ext) (simp add: name_matches_foo)
  have 1: "players_of rd ''blue'' = pre @ p # post \<and> \<not> list_ex (name_matches ''foo'') pre \<longrightarrow>
            get_player_stats_from_replay rd ''foo'' = Some (player_record rd ''blue'' p) \<and>
            get_player_stats_from_replay rd ''FOO'' = Some (player_record rd ''blue'' p)"
    using m by (simp add: get_player_stats_from_replay_unfold eq find_first)
  have 2: "\<not> list_ex (name_matches ''foo'') (players_of rd ''blue'') \<and>
          players_of rd ''orange'' = pre @ p # post \<and> \<not> list_ex (name_matches ''foo'') pre \<longrightarrow>
            get_player_stats_from_replay rd ''foo'' = Some (player_record rd ''orange'' p) \<and>
            get_player_stats_from_replay rd ''FOO'' = Some (player_record rd ''orange'' p)"
    using m by (simp add: get_player_stats_from_replay_unfold eq find_first find_None_list_ex)
  have found: "\<And>c q. find (name_matches ''foo'') (players_of rd c) = Some q \<Longrightarrow>
     lower (get_or (match_player_name (player_record rd c q)) []) = ''foo''"
    by (auto simp: find_Some_iff name_matches_foo)
  have 3: "p \<in> set (players_of rd ''blue'' @ players_of rd ''orange'') \<longrightarrow>
            (\<exists>r. get_player_stats_from_replay rd ''foo'' = Some r \<and>
                 lower (get_or (match_player_name r) []) = ''foo'')"
  proof
    assume "p \<in> set (players_of rd ''blue'' @ players_of rd ''orange'')"
    with m have "find (name_matches ''foo'') (players_of rd ''blue'') \<noteq> None \<or>
                 find (name_matches ''foo'') (players_of rd ''orange'') \<noteq> None"
      by (auto simp: find_None_iff)
    then show "\<exists>r. get_player_stats_from_replay rd ''foo'' = Some r \<and>
                 lower (get_or (match_player_name r) []) = ''foo''"
      using found by (auto simp: get_player_stats_from_replay_unfold split: option.splits)
  qed
  have 4: "get_player_stats_from_replay rd ''FOO'' = get_player_stats_from_replay rd ''foo''"
    by (simp only: get_player_stats_from_replay_unfold eq)
  have 5: "\<not> name_matches ''Foobar'' p"
    using assms by (simp add: name_matches_foo get_or_def)
  have 6: "\<forall>r. get_player_stats_from_replay rd ''Foobar'' = Some r \<longrightarrow>
              match_player_name r \<noteq> Some ''Foo''"
    by (auto simp: get_player_stats_from_replay_unfold find_Some_iff name_matches_foo get_or_def
        split: option.splits)
  from 1 2 3 4 5 6 show ?thesis by simp
qed


theorem foo_lookup_witness:
  "json_name (mk_player ''Foo'' 2) = Some ''Foo'' \<and>
   get_player_stats_from_replay
     (mk_replay [mk_player ''Bar'' 1, mk_player ''Foo'' 2] 3 [mk_player ''Baz'' 0] 1) ''foo'' =
   Some (player_record
     (mk_replay [mk_player ''Bar'' 1, mk_player ''Foo'' 2] 3 [mk_player ''Baz'' 0] 1)
     ''blue'' (mk_player ''Foo'' 2)) \<and>
   get_player_stats_from_replay
     (mk_replay [mk_player ''Bar'' 1, mk_player ''Foo'' 2] 3 [mk_player ''Baz'' 0] 1) ''FOO'' =
   Some (player_record
     (mk_replay [mk_player ''Bar'' 1, mk_player ''Foo'' 2] 3 [mk_player ''Baz'' 0] 1)
     ''blue'' (mk_player ''Foo'' 2)) \<and>
   get_player_stats_from_replay
     (mk_replay [mk_player ''Bar'' 1] 3 [mk_player ''Baz'' 0, mk_player ''Foo'' 2] 1) ''foo'' =
   Some (player_record
     (mk_replay [mk_player ''Bar'' 1] 3 [mk_player ''Baz'' 0, mk_player ''Foo'' 2] 1)
     ''orange'' (mk_player ''Foo'' 2)) \<and>
   get_player_stats_from_replay
     (mk_replay [mk_player ''Bar'' 1, mk_player ''Foo'' 2] 3 [mk_player ''Baz'' 0] 1) ''Foobar'' =
   None"
proof -
  define rb where "rb = mk_replay [mk_player ''Bar'' 1, mk_player ''Foo'' 2] 3 [mk_player ''Baz'' 0] 1"
  define ro where "ro = mk_replay [mk_player ''Bar'' 1] 3 [mk_player ''Baz'' 0, mk_player ''Foo'' 2] 1"
  have n: "json_name (mk_player ''Foo'' 2) = Some ''Foo''"
    by (simp add: mk_player_def)
  have b: "players_of rb ''blue'' = [mk_player ''Bar'' 1] @ mk_player ''Foo'' 2 # [] \<and>
           \<not> list_ex (name_matches ''foo'') [mk_player ''Bar'' 1]"
    by (simp add: rb_def client_defs)
  have o: "\<not> list_ex (name_matches ''foo'') (players_of ro ''blue'') \<and>
           players_of ro ''orange'' = [mk_player ''Baz'' 0] @ mk_player ''Foo'' 2 # [] \<and>
           \<not> list_ex (name_matches ''foo'') [mk_player ''Baz'' 0]"
    by (simp add: ro_def client_defs)
  from foo_lookup [OF n, of rb "[mk_player ''Bar'' 1]" "[]"] b
  have 1: "get_player_stats_from_replay rb ''foo'' = Some (player_record rb ''blue'' (mk_player ''Foo'' 2)) \<and>
           get_player_stats_from_replay rb ''FOO'' = Some (player_record rb ''blue'' (mk_player ''Foo'' 2))"
    by blast
  from foo_lookup [OF n, of ro "[mk_player ''Baz'' 0]" "[]"] o
  have 2: "get_player_stats_from_replay ro ''foo'' = Some (player_record ro ''orange'' (mk_player ''Foo'' 2))"
    by blast
  have 3: "get_player_stats_from_replay rb ''Foobar'' = None"
    by (simp add: rb_def client_defs)
  from n 1 2 3 show ?thesis unfolding rb_def ro_def by simp
qed

text \<open>
  C7 as it is written fails when an earlier roster entry has the same name in another
  casing: with \<open>FOO\<close> before \<open>Foo\<close> on the blue roster, the lookup \<open>foo\<close> returns the
  record of \<open>FOO\<close> (1 goal), not that of \<open>Foo\<close> (2 goals).
\<close>

theorem first_match_wins_counterexample:
  "json_name (mk_player ''Foo'' 2) = Some ''Foo'' \<and>
   mk_player ''Foo'' 2 \<in> set (players_of
     (mk_replay [mk_player ''FOO'' 1, mk_player ''Foo'' 2] 3 [] 1) ''blue'') \<and>
   map_option match_player_name (get_player_stats_from_replay
     (mk_replay [mk_player ''FOO'' 1, mk_player ''Foo'' 2] 3 [] 1) ''foo'') = Some (Some ''FOO'') \<and>
   map_option match_goals (get_player_stats_from_replay
     (mk_replay [mk_player ''FOO'' 1, mk_player ''Foo'' 2] 3 [] 1) ''foo'') = Some 1 \<and>
   match_goals (player_record
     (mk_replay [mk_player ''FOO'' 1, mk_player ''Foo'' 2] 3 [] 1) ''blue'' (mk_player ''Foo'' 2)) = 2"
  by (simp add: client_defs)


end
